theory Spec2Isabelle
  imports Complex_Main
begin

section \<open>The games resource of \<^verbatim>\<open>server/routes/games.py\<close>\<close>

subsection \<open>Request values\<close>

text \<open>
  What \<^verbatim>\<open>request.get_json(silent=True)\<close> hands to a handler: \<open>JNull\<close> is Python's
  \<^verbatim>\<open>None\<close> (no body, a body that is not JSON, or the literal \<^verbatim>\<open>null\<close>), \<open>JObj\<close> is a
  \<^verbatim>\<open>dict\<close> given by its items, read from the front. A float is given by its value; the
  parser's \<^verbatim>\<open>nan\<close> and infinities behave in every test below like a non-zero float.
\<close>

datatype json =
    JNull
  | JBool bool
  | JInt int
  | JFloat rat
  | JStr string
  | JList "json list"
  | JObj "(string \<times> json) list"

text \<open>The exceptions that can reach a handler.\<close>

datatype exn =
    ValueError string
  | IntegrityError
  | TypeError
  | KeyError
  | AttributeError
  | OverflowError
  | InterfaceError

text \<open>Python's truth value of a request value, as \<^verbatim>\<open>if not data\<close> tests it.\<close>

fun truthy :: "json \<Rightarrow> bool" where
  "truthy JNull = False"
| "truthy (JBool b) = b"
| "truthy (JInt n) = (n \<noteq> 0)"
| "truthy (JFloat x) = (x \<noteq> 0)"
| "truthy (JStr s) = (s \<noteq> [])"
| "truthy (JList xs) = (xs \<noteq> [])"
| "truthy (JObj kvs) = (kvs \<noteq> [])"

text \<open>\<^verbatim>\<open>k in s\<close> on two strings: \<open>k\<close> occurs in \<open>s\<close> as a contiguous piece.\<close>

fun substring :: "string \<Rightarrow> string \<Rightarrow> bool" where
  "substring k [] = (k = [])"
| "substring k (c # s) = (take (length k) (c # s) = k \<or> substring k s)"

text \<open>
  \<^verbatim>\<open>k in data\<close> for a string \<open>k\<close>: key membership on a dict, element membership on a
  list, substring test on a string, and a \<^verbatim>\<open>TypeError\<close> on every other value.
\<close>

fun contains :: "json \<Rightarrow> string \<Rightarrow> exn + bool" where
  "contains (JObj kvs) k = Inr (map_of kvs k \<noteq> None)"
| "contains (JList xs) k = Inr (JStr k \<in> set xs)"
| "contains (JStr s) k = Inr (substring k s)"
| "contains JNull k = Inl TypeError"
| "contains (JBool b) k = Inl TypeError"
| "contains (JInt n) k = Inl TypeError"
| "contains (JFloat x) k = Inl TypeError"

text \<open>
  \<^verbatim>\<open>data[k]\<close> for a string \<open>k\<close>: a dict gives the value or a \<^verbatim>\<open>KeyError\<close>; lists and
  strings take integer indices only and the other values are not subscriptable.
\<close>

fun getitem :: "json \<Rightarrow> string \<Rightarrow> exn + json" where
  "getitem (JObj kvs) k = (case map_of kvs k of None \<Rightarrow> Inl KeyError | Some v \<Rightarrow> Inr v)"
| "getitem (JList xs) k = Inl TypeError"
| "getitem (JStr s) k = Inl TypeError"
| "getitem JNull k = Inl TypeError"
| "getitem (JBool b) k = Inl TypeError"
| "getitem (JInt n) k = Inl TypeError"
| "getitem (JFloat x) k = Inl TypeError"

text \<open>\<^verbatim>\<open>data.get(k)\<close>: only a dict has the method; an absent key gives \<^verbatim>\<open>None\<close>.\<close>

fun get_or_none :: "json \<Rightarrow> string \<Rightarrow> exn + json" where
  "get_or_none (JObj kvs) k = (case map_of kvs k of None \<Rightarrow> Inr JNull | Some v \<Rightarrow> Inr v)"
| "get_or_none (JList xs) k = Inl AttributeError"
| "get_or_none (JStr s) k = Inl AttributeError"
| "get_or_none JNull k = Inl AttributeError"
| "get_or_none (JBool b) k = Inl AttributeError"
| "get_or_none (JInt n) k = Inl AttributeError"
| "get_or_none (JFloat x) k = Inl AttributeError"

text \<open>\<^verbatim>\<open>sep.join(xs)\<close>.\<close>

fun join :: "string \<Rightarrow> string list \<Rightarrow> string" where
  "join sep [] = []"
| "join sep [x] = x"
| "join sep (x # y # ys) = x @ sep @ join sep (y # ys)"

subsection \<open>Rows, tables and the session\<close>

text \<open>
  A row of the game table without its primary key. The handlers assign request values
  to the attributes and never look at what they assign, so a column is a request value:
  the one its typed column holds once the assigned value is written (\<open>column_value\<close>
  below).
\<close>

record game =
  title :: json
  description :: json
  star_rating :: json
  category_id :: json
  publisher_id :: json

text \<open>
  The three tables, each a list of rows keyed by the integer primary key; a publisher
  or category row carries its name.
\<close>

record tables =
  games :: "(int \<times> game) list"
  categories :: "(int \<times> string) list"
  publishers :: "(int \<times> string) list"

text \<open>
  \<^verbatim>\<open>db.session\<close>: what the database holds (\<open>stored\<close>) and what the session sees, with
  the changes of the open transaction (\<open>pending\<close>), each changed row as the flush will
  write it. Queries read \<open>pending\<close>.
\<close>

record session =
  stored :: tables
  pending :: tables

text \<open>A request starts with a session that has no change of its own.\<close>

definition begin_session :: "tables \<Rightarrow> session" where
  "begin_session t = \<lparr>stored = t, pending = t\<rparr>"

text \<open>
  The module \<^verbatim>\<open>models\<close>, the database and its driver are not part of the sources. What
  the handlers need of them is a parameter:
  \<^item> \<open>validates a v\<close>: the message of the \<^verbatim>\<open>ValueError\<close> that assigning \<open>v\<close> to the
    attribute \<open>a\<close> of a game raises, if it raises one;
  \<^item> \<open>integrity t\<close>: the commit of the tables \<open>t\<close> does not raise \<^verbatim>\<open>IntegrityError\<close>;
  \<^item> \<open>new_id t\<close>: the primary key the database gives to a row inserted into \<open>t\<close>;
  \<^item> \<open>bind_error v\<close>: the exception that a statement with the value \<open>v\<close> as its
    parameter raises, when the driver cannot pass \<open>v\<close> to the database (an integer
    beyond the database's range, a list, an object);
  \<^item> \<open>key_of v\<close>: the integer that the database reads a value \<open>v\<close> other than an
    integer as, in an integer column or in a comparison with one, if there is one;
  \<^item> \<open>typed a v\<close>: the value that the column \<open>a\<close>, not a key, holds once \<open>v\<close> is
    written to it.
\<close>

record models =
  validates :: "string \<Rightarrow> json \<Rightarrow> string option"
  integrity :: "tables \<Rightarrow> bool"
  new_id :: "tables \<Rightarrow> int"
  bind_error :: "json \<Rightarrow> exn option"
  key_of :: "json \<Rightarrow> int option"
  typed :: "string \<Rightarrow> json \<Rightarrow> json"

text \<open>The integer that the database reads a value as.\<close>

definition as_key :: "models \<Rightarrow> json \<Rightarrow> int option" where
  "as_key M v = (case v of JInt i \<Rightarrow> Some i | _ \<Rightarrow> key_of M v)"

text \<open>The database's comparison \<^verbatim>\<open>column == v\<close> of an integer key \<open>i\<close> with a value \<open>v\<close>.\<close>

definition id_eq :: "models \<Rightarrow> int \<Rightarrow> json \<Rightarrow> bool" where
  "id_eq M i v = (as_key M v = Some i)"

text \<open>
  What the column \<open>a\<close> of a game holds once \<open>v\<close> is written to it: a key column
  (category_id, publisher_id) holds the integer the database reads \<open>v\<close> as, when there is
  one, and another column the value of its type. A value that the driver cannot bind
  is not written: the row keeps it until the flush raises.
\<close>

definition column_value :: "models \<Rightarrow> string \<Rightarrow> json \<Rightarrow> json" where
  "column_value M a v =
     (if bind_error M v \<noteq> None then v
      else if a = ''category_id'' \<or> a = ''publisher_id'' then
        (case as_key M v of Some k \<Rightarrow> JInt k | None \<Rightarrow> v)
      else typed M a v)"

text \<open>The row that the database holds for a game object once it is written.\<close>

definition stored_row :: "models \<Rightarrow> game \<Rightarrow> game" where
  "stored_row M g =
     \<lparr>title = column_value M ''title'' (title g),
      description = column_value M ''description'' (description g),
      star_rating = column_value M ''star_rating'' (star_rating g),
      category_id = column_value M ''category_id'' (category_id g),
      publisher_id = column_value M ''publisher_id'' (publisher_id g)\<rparr>"

text \<open>The values of a row, which a statement that writes the row binds.\<close>

definition row_values :: "game \<Rightarrow> json list" where
  "row_values g = [title g, description g, star_rating g, category_id g, publisher_id g]"

text \<open>
  Modelled from the spec: \<^verbatim>\<open>Game.to_dict\<close> of the absent module \<^verbatim>\<open>models\<close>, "a
  serialization method producing a JSON-compatible mapping" of a game's identifier,
  title, description, star_rating, category_id and publisher_id.
\<close>

definition to_dict :: "int \<Rightarrow> game \<Rightarrow> json" where
  "to_dict i g = JObj
     [(''id'', JInt i),
      (''title'', title g),
      (''description'', description g),
      (''star_rating'', star_rating g),
      (''category_id'', category_id g),
      (''publisher_id'', publisher_id g)]"

subsection \<open>Statements that may raise\<close>

text \<open>
  A statement runs on the session and either raises or gives a value; the session it
  leaves is returned in both cases.
\<close>

type_synonym 'a action = "session \<Rightarrow> (exn + 'a) \<times> session"

definition ret :: "'a \<Rightarrow> 'a action" where
  "ret x = (\<lambda>s. (Inr x, s))"

definition pure_step :: "exn + 'a \<Rightarrow> 'a action" where
  "pure_step r = (\<lambda>s. (r, s))"

definition and_then :: "'a action \<Rightarrow> ('a \<Rightarrow> 'b action) \<Rightarrow> 'b action" where
  "and_then m f = (\<lambda>s. case m s of (Inl e, s') \<Rightarrow> (Inl e, s') | (Inr x, s') \<Rightarrow> f x s')"

text \<open>What a handler gives back: a body with a status, or an exception nobody caught.\<close>

datatype outcome =
    Returned json nat
  | Unhandled exn

definition error_body :: "string \<Rightarrow> json" where
  "error_body m = JObj [(''error'', JStr m)]"

subsection \<open>The session's operations\<close>

text \<open>
  \<^verbatim>\<open>db.session.query(Game).filter(Game.id == id).first()\<close>: the query raises when the
  driver cannot bind the id; otherwise it gives the first row with the id, if any.
\<close>

definition find_game :: "models \<Rightarrow> int \<Rightarrow> session \<Rightarrow> exn + game option" where
  "find_game M i s =
     (case bind_error M (JInt i) of
        Some e \<Rightarrow> Inl e
      | None \<Rightarrow> Inr (map_option snd (find (\<lambda>r. fst r = i) (games (pending s)))))"

text \<open>
  \<^verbatim>\<open>db.session.query(Category).filter(Category.id == v).first()\<close>, and the same for
  publishers, with a request value as the parameter.
\<close>

definition find_category :: "models \<Rightarrow> json \<Rightarrow> session \<Rightarrow> exn + (int \<times> string) option" where
  "find_category M v s =
     (case bind_error M v of
        Some e \<Rightarrow> Inl e
      | None \<Rightarrow> Inr (find (\<lambda>r. id_eq M (fst r) v) (categories (pending s))))"

definition find_publisher :: "models \<Rightarrow> json \<Rightarrow> session \<Rightarrow> exn + (int \<times> string) option" where
  "find_publisher M v s =
     (case bind_error M v of
        Some e \<Rightarrow> Inl e
      | None \<Rightarrow> Inr (find (\<lambda>r. id_eq M (fst r) v) (publishers (pending s))))"

text \<open>\<^verbatim>\<open>db.session.add(game)\<close>: the row is inserted under the key the database gives it.\<close>

definition add :: "models \<Rightarrow> game \<Rightarrow> int action" where
  "add M g = (\<lambda>s.
     let i = new_id M (pending s)
     in (Inr i, s\<lparr>pending := (pending s)\<lparr>games := games (pending s) @ [(i, stored_row M g)]\<rparr>\<rparr>))"

text \<open>An assignment to an attribute of the game with key \<open>i\<close> changes that row in the session.\<close>

definition write_game :: "int \<Rightarrow> game \<Rightarrow> unit action" where
  "write_game i g = (\<lambda>s.
     (Inr (), s\<lparr>pending := (pending s)
        \<lparr>games := map (\<lambda>r. if fst r = i then (i, g) else r) (games (pending s))\<rparr>\<rparr>))"

text \<open>\<^verbatim>\<open>db.session.delete(game)\<close> for the game with key \<open>i\<close>.\<close>

definition delete :: "int \<Rightarrow> unit action" where
  "delete i = (\<lambda>s.
     (Inr (), s\<lparr>pending := (pending s)
        \<lparr>games := filter (\<lambda>r. fst r \<noteq> i) (games (pending s))\<rparr>\<rparr>))"

text \<open>
  The exceptions of the driver when the flush writes the rows that the session has
  and the database has not: one for each value that the driver cannot bind.
\<close>

definition write_errors :: "models \<Rightarrow> session \<Rightarrow> exn list" where
  "write_errors M s =
     List.map_filter (bind_error M)
       (concat (map (\<lambda>r. row_values (snd r))
          [r \<leftarrow> games (pending s). r \<notin> set (games (stored s))]))"

text \<open>
  \<^verbatim>\<open>db.session.commit()\<close>: the flush writes the session's tables and the database takes
  them; or the commit raises, an \<^verbatim>\<open>IntegrityError\<close> or what the driver raises for a value
  it cannot bind, and the transaction stays open.
\<close>

definition commit :: "models \<Rightarrow> unit action" where
  "commit M = (\<lambda>s.
     if \<not> integrity M (pending s) then (Inl IntegrityError, s)
     else (case write_errors M s of
             e # _ \<Rightarrow> (Inl e, s)
           | [] \<Rightarrow> (Inr (), s\<lparr>stored := pending s\<rparr>)))"

text \<open>\<^verbatim>\<open>db.session.rollback()\<close>.\<close>

definition rollback :: "session \<Rightarrow> session" where
  "rollback s = s\<lparr>pending := stored s\<rparr>"

subsection \<open>Reading games\<close>

text \<open>
  A left outer join: every row of \<open>xs\<close> is kept, once for each row of \<open>ys\<close> that
  the condition relates it to, and once with nothing where there is none.
\<close>

definition outer_join :: "'a list \<Rightarrow> 'b list \<Rightarrow> ('a \<Rightarrow> 'b \<Rightarrow> bool) \<Rightarrow> ('a \<times> 'b option) list" where
  "outer_join xs ys on =
     concat (map (\<lambda>x. case filter (on x) ys of
                         [] \<Rightarrow> [(x, None)]
                       | y # rest \<Rightarrow> map (\<lambda>y'. (x, Some y')) (y # rest)) xs)"

text \<open>\<^verbatim>\<open>get_games_base_query\<close>: games joined to their publisher, then to their category.\<close>

definition get_games_base_query ::
  "models \<Rightarrow> session \<Rightarrow> (((int \<times> game) \<times> (int \<times> string) option) \<times> (int \<times> string) option) list" where
  "get_games_base_query M s =
     outer_join
       (outer_join (games (pending s)) (publishers (pending s))
          (\<lambda>g p. id_eq M (fst p) (publisher_id (snd g))))
       (categories (pending s))
       (\<lambda>gp c. id_eq M (fst c) (category_id (snd (fst gp))))"

text \<open>
  \<^verbatim>\<open>get_game\<close>: the query, which no \<^verbatim>\<open>try\<close> guards, raises when the driver cannot bind
  the id; otherwise the first joined row with the id is serialized, and status 200 is
  the default.
\<close>

definition get_game :: "models \<Rightarrow> int \<Rightarrow> session \<Rightarrow> outcome \<times> session" where
  "get_game M i s =
     (case bind_error M (JInt i) of
        Some e \<Rightarrow> (Unhandled e, s)
      | None \<Rightarrow>
          (case find (\<lambda>gpc. fst (fst (fst gpc)) = i) (get_games_base_query M s) of
             None \<Rightarrow> (Returned (error_body ''Game not found'') 404, s)
           | Some gpc \<Rightarrow>
               (Returned (to_dict (fst (fst (fst gpc))) (snd (fst (fst gpc)))) 200, s)))"

subsection \<open>Creating a game\<close>

definition required_fields :: "string list" where
  "required_fields = [''title'', ''description'', ''category_id'', ''publisher_id'']"

text \<open>\<^verbatim>\<open>[field for field in fields if field not in data]\<close>; the first test that raises ends it.\<close>

fun missing_fields :: "json \<Rightarrow> string list \<Rightarrow> exn + string list" where
  "missing_fields data [] = Inr []"
| "missing_fields data (f # fs) =
     (case contains data f of
        Inl e \<Rightarrow> Inl e
      | Inr present \<Rightarrow>
          (case missing_fields data fs of
             Inl e \<Rightarrow> Inl e
           | Inr ms \<Rightarrow> Inr (if present then ms else f # ms)))"

text \<open>Assigning \<open>v\<close> to the attribute \<open>a\<close> runs the attribute's validation.\<close>

definition validate :: "models \<Rightarrow> string \<Rightarrow> json \<Rightarrow> exn + unit" where
  "validate M a v = (case validates M a v of Some m \<Rightarrow> Inl (ValueError m) | None \<Rightarrow> Inr ())"

text \<open>
  The constructor \<^verbatim>\<open>Game(title=..., description=..., category_id=..., publisher_id=...,
  star_rating=...)\<close> assigns its keyword arguments in the order they are written.
\<close>

definition Game :: "models \<Rightarrow> json \<Rightarrow> json \<Rightarrow> json \<Rightarrow> json \<Rightarrow> json \<Rightarrow> exn + game" where
  "Game M t d c p r =
     (case validate M ''title'' t of Inl e \<Rightarrow> Inl e | Inr _ \<Rightarrow>
     (case validate M ''description'' d of Inl e \<Rightarrow> Inl e | Inr _ \<Rightarrow>
     (case validate M ''category_id'' c of Inl e \<Rightarrow> Inl e | Inr _ \<Rightarrow>
     (case validate M ''publisher_id'' p of Inl e \<Rightarrow> Inl e | Inr _ \<Rightarrow>
     (case validate M ''star_rating'' r of Inl e \<Rightarrow> Inl e | Inr _ \<Rightarrow>
      Inr \<lparr>title = t, description = d, star_rating = r,
           category_id = c, publisher_id = p\<rparr>)))))"

text \<open>
  The body of the \<^verbatim>\<open>try\<close> in \<^verbatim>\<open>create_game\<close>. After the commit \<^verbatim>\<open>game.to_dict()\<close> reads
  the attributes from the row that was written.
\<close>

definition create_try :: "models \<Rightarrow> json \<Rightarrow> (json \<times> nat) action" where
  "create_try M data =
     and_then (pure_step (getitem data ''title'')) (\<lambda>t.
     and_then (pure_step (getitem data ''description'')) (\<lambda>d.
     and_then (pure_step (getitem data ''category_id'')) (\<lambda>c.
     and_then (pure_step (getitem data ''publisher_id'')) (\<lambda>p.
     and_then (pure_step (get_or_none data ''star_rating'')) (\<lambda>r.
     and_then (pure_step (Game M t d c p r)) (\<lambda>g.
     and_then (add M g) (\<lambda>i.
     and_then (commit M) (\<lambda>_.
     ret (to_dict i (stored_row M g), 201)))))))))"

text \<open>
  The \<^verbatim>\<open>except\<close> clauses of \<^verbatim>\<open>create_game\<close> and \<^verbatim>\<open>update_game\<close>: a \<^verbatim>\<open>ValueError\<close>
  and an \<^verbatim>\<open>IntegrityError\<close> are caught, every other exception leaves the handler.
\<close>

fun except_clauses :: "(exn + json \<times> nat) \<times> session \<Rightarrow> outcome \<times> session" where
  "except_clauses (Inr (body, status), s) = (Returned body status, s)"
| "except_clauses (Inl (ValueError m), s) = (Returned (error_body m) 400, rollback s)"
| "except_clauses (Inl IntegrityError, s) =
     (Returned (error_body ''Database integrity error'') 400, rollback s)"
| "except_clauses (Inl e, s) = (Unhandled e, s)"

definition create_game :: "models \<Rightarrow> json \<Rightarrow> session \<Rightarrow> outcome \<times> session" where
  "create_game M data s =
     (if \<not> truthy data then (Returned (error_body ''Request body must be JSON'') 400, s)
      else (case missing_fields data required_fields of
        Inl e \<Rightarrow> (Unhandled e, s)
      | Inr missing \<Rightarrow>
          if missing \<noteq> [] then
            (Returned (error_body (''Missing required fields: '' @ join '', '' missing)) 400, s)
          else (case getitem data ''category_id'' of
            Inl e \<Rightarrow> (Unhandled e, s)
          | Inr c \<Rightarrow>
              (case find_category M c s of
                 Inl e \<Rightarrow> (Unhandled e, s)
               | Inr None \<Rightarrow> (Returned (error_body ''Category not found'') 400, s)
               | Inr (Some category) \<Rightarrow>
                   (case getitem data ''publisher_id'' of
                      Inl e \<Rightarrow> (Unhandled e, s)
                    | Inr p \<Rightarrow>
                        (case find_publisher M p s of
                           Inl e \<Rightarrow> (Unhandled e, s)
                         | Inr None \<Rightarrow> (Returned (error_body ''Publisher not found'') 400, s)
                         | Inr (Some publisher) \<Rightarrow> except_clauses (create_try M data s)))))))"

subsection \<open>Updating a game\<close>

text \<open>
  \<^verbatim>\<open>if 'category_id' in data: ...\<close> before the \<^verbatim>\<open>try\<close>: the response with which the
  handler returns there, if it does.
\<close>

definition check_category :: "models \<Rightarrow> json \<Rightarrow> session \<Rightarrow> outcome option" where
  "check_category M data s =
     (case contains data ''category_id'' of
        Inl e \<Rightarrow> Some (Unhandled e)
      | Inr present \<Rightarrow>
          if \<not> present then None
          else (case getitem data ''category_id'' of
            Inl e \<Rightarrow> Some (Unhandled e)
          | Inr c \<Rightarrow>
              (case find_category M c s of
                 Inl e \<Rightarrow> Some (Unhandled e)
               | Inr None \<Rightarrow> Some (Returned (error_body ''Category not found'') 400)
               | Inr (Some category) \<Rightarrow> None)))"

definition check_publisher :: "models \<Rightarrow> json \<Rightarrow> session \<Rightarrow> outcome option" where
  "check_publisher M data s =
     (case contains data ''publisher_id'' of
        Inl e \<Rightarrow> Some (Unhandled e)
      | Inr present \<Rightarrow>
          if \<not> present then None
          else (case getitem data ''publisher_id'' of
            Inl e \<Rightarrow> Some (Unhandled e)
          | Inr p \<Rightarrow>
              (case find_publisher M p s of
                 Inl e \<Rightarrow> Some (Unhandled e)
               | Inr None \<Rightarrow> Some (Returned (error_body ''Publisher not found'') 400)
               | Inr (Some publisher) \<Rightarrow> None)))"

text \<open>
  \<^verbatim>\<open>if a in data: game.a = data[a]\<close> on the game \<open>g\<close> with key \<open>i\<close>; \<open>setter\<close> is the
  attribute's assignment. The row of the game as the flush will write it is the value.
\<close>

definition assign ::
  "models \<Rightarrow> json \<Rightarrow> string \<Rightarrow> (json \<Rightarrow> game \<Rightarrow> game) \<Rightarrow> int \<Rightarrow> game \<Rightarrow> game action" where
  "assign M data a setter i g =
     and_then (pure_step (contains data a)) (\<lambda>present.
       if \<not> present then ret g
       else
         and_then (pure_step (getitem data a)) (\<lambda>v.
         and_then (pure_step (validate M a v)) (\<lambda>_.
         and_then (write_game i (setter (column_value M a v) g)) (\<lambda>_.
         ret (setter (column_value M a v) g)))))"

text \<open>The five assignments of the \<^verbatim>\<open>try\<close> in \<^verbatim>\<open>update_game\<close>, in their order.\<close>

definition update_fields :: "models \<Rightarrow> json \<Rightarrow> int \<Rightarrow> game \<Rightarrow> game action" where
  "update_fields M data i g =
     and_then (assign M data ''title'' (\<lambda>v g. g\<lparr>title := v\<rparr>) i g) (\<lambda>g1.
     and_then (assign M data ''description'' (\<lambda>v g. g\<lparr>description := v\<rparr>) i g1) (\<lambda>g2.
     and_then (assign M data ''category_id'' (\<lambda>v g. g\<lparr>category_id := v\<rparr>) i g2) (\<lambda>g3.
     and_then (assign M data ''publisher_id'' (\<lambda>v g. g\<lparr>publisher_id := v\<rparr>) i g3) (\<lambda>g4.
     assign M data ''star_rating'' (\<lambda>v g. g\<lparr>star_rating := v\<rparr>) i g4))))"

definition update_try :: "models \<Rightarrow> json \<Rightarrow> int \<Rightarrow> game \<Rightarrow> (json \<times> nat) action" where
  "update_try M data i g =
     and_then (update_fields M data i g) (\<lambda>g'.
     and_then (commit M) (\<lambda>_.
     ret (to_dict i g', 200)))"

definition update_game :: "models \<Rightarrow> int \<Rightarrow> json \<Rightarrow> session \<Rightarrow> outcome \<times> session" where
  "update_game M i data s =
     (case find_game M i s of
        Inl e \<Rightarrow> (Unhandled e, s)
      | Inr None \<Rightarrow> (Returned (error_body ''Game not found'') 404, s)
      | Inr (Some g) \<Rightarrow>
          if \<not> truthy data then (Returned (error_body ''Request body must be JSON'') 400, s)
          else (case check_category M data s of
            Some r \<Rightarrow> (r, s)
          | None \<Rightarrow>
              (case check_publisher M data s of
                 Some r \<Rightarrow> (r, s)
               | None \<Rightarrow> except_clauses (update_try M data i g s))))"

subsection \<open>Deleting a game\<close>

definition delete_try :: "models \<Rightarrow> int \<Rightarrow> (json \<times> nat) action" where
  "delete_try M i =
     and_then (delete i) (\<lambda>_.
     and_then (commit M) (\<lambda>_.
     ret (JObj [], 204)))"

text \<open>The single \<^verbatim>\<open>except\<close> clause of \<^verbatim>\<open>delete_game\<close>.\<close>

fun except_integrity :: "(exn + json \<times> nat) \<times> session \<Rightarrow> outcome \<times> session" where
  "except_integrity (Inr (body, status), s) = (Returned body status, s)"
| "except_integrity (Inl IntegrityError, s) =
     (Returned (error_body ''Database integrity error'') 400, rollback s)"
| "except_integrity (Inl e, s) = (Unhandled e, s)"

definition delete_game :: "models \<Rightarrow> int \<Rightarrow> session \<Rightarrow> outcome \<times> session" where
  "delete_game M i s =
     (case find_game M i s of
        Inl e \<Rightarrow> (Unhandled e, s)
      | Inr None \<Rightarrow> (Returned (error_body ''Game not found'') 404, s)
      | Inr (Some g) \<Rightarrow> except_integrity (delete_try M i s))"

subsection \<open>Referential integrity\<close>

text \<open>The value \<open>v\<close> of a foreign-key column references a row of the table \<open>rows\<close>.\<close>

definition resolves :: "models \<Rightarrow> (int \<times> string) list \<Rightarrow> json \<Rightarrow> bool" where
  "resolves M rows v = (\<exists>row \<in> set rows. id_eq M (fst row) v)"


subsection \<open>A sample instance\<close>

text \<open>
  One choice of the parameters, on which the handlers can be evaluated: a rating of 9 is
  refused when it is assigned, the database refuses a game without a title, keys are
  given out in sequence, the driver binds integers of 64 bits and neither lists nor
  objects, the database reads the string \<^verbatim>\<open>"1"\<close> as the integer 1 and writes the title
  123 as the string \<^verbatim>\<open>"123"\<close>.
\<close>

definition sample_models :: models where
  "sample_models =
     \<lparr>validates = (\<lambda>a v. if a = ''star_rating'' \<and> v = JInt 9 then Some ''Star rating out of range'' else None),
      integrity = (\<lambda>t. \<forall>r \<in> set (games t). title (snd r) \<noteq> JNull),
      new_id = (\<lambda>t. int (length (games t)) + 1),
      bind_error = (\<lambda>v. case v of
          JInt i \<Rightarrow> if i < - 9223372036854775808 \<or> 9223372036854775808 \<le> i
                    then Some OverflowError else None
        | JList xs \<Rightarrow> Some InterfaceError
        | JObj kvs \<Rightarrow> Some InterfaceError
        | _ \<Rightarrow> None),
      key_of = (\<lambda>v. if v = JStr ''1'' then Some 1 else None),
      typed = (\<lambda>a v. if a = ''title'' \<and> v = JInt 123 then JStr ''123'' else v)\<rparr>"

definition sample_tables :: tables where
  "sample_tables =
     \<lparr>games = [(1, \<lparr>title = JStr ''Chess'', description = JStr ''A board game for two'',
                     star_rating = JNull, category_id = JInt 1, publisher_id = JInt 1\<rparr>)],
      categories = [(1, ''Strategy'')],
      publishers = [(1, ''Acme'')]\<rparr>"

section \<open>Properties of the handlers\<close>

subsection \<open>Looking a game up\<close>

lemma find_block_skip:
  "\<not> P x \<Longrightarrow> find (\<lambda>r. P (fst r)) (map (\<lambda>y. (x, f y)) ys @ zs) = find (\<lambda>r. P (fst r)) zs"
  by (induction ys) simp_all

lemma find_join_block:
  "map_option fst (find (\<lambda>r. P (fst r))
      ((case filter (on x) ys of [] \<Rightarrow> [(x, None)] | y # rest \<Rightarrow> map (\<lambda>y'. (x, Some y')) (y # rest)) @ zs))
   = (if P x then Some x else map_option fst (find (\<lambda>r. P (fst r)) zs))"
proof (cases "filter (on x) ys")
  case Nil
  then show ?thesis by simp
next
  case (Cons y rest)
  show ?thesis
  proof (cases "P x")
    case True
    with Cons show ?thesis by simp
  next
    case False
    with Cons show ?thesis
      using find_block_skip [of P x Some "y # rest" zs] by simp
  qed
qed

lemma find_outer_join:
  "map_option fst (find (\<lambda>r. P (fst r)) (outer_join xs ys on)) = find P xs"
proof (induction xs)
  case Nil
  show ?case by (simp add: outer_join_def)
next
  case (Cons x xs)
  have "outer_join (x # xs) ys on =
      (case filter (on x) ys of [] \<Rightarrow> [(x, None)] | y # rest \<Rightarrow> map (\<lambda>y'. (x, Some y')) (y # rest))
        @ outer_join xs ys on"
    by (simp add: outer_join_def)
  then show ?case using Cons.IH by (simp only: find_join_block find.simps) 
qed

lemma find_base_query:
  "map_option (\<lambda>gpc. fst (fst gpc)) (find (\<lambda>gpc. fst (fst (fst gpc)) = i) (get_games_base_query M s))
   = find (\<lambda>r. fst r = i) (games (pending s))"
proof -
  let ?inner = "outer_join (games (pending s)) (publishers (pending s))
          (\<lambda>g p. id_eq M (fst p) (publisher_id (snd g)))"
  have outer: "map_option fst (find (\<lambda>gpc. fst (fst (fst gpc)) = i) (get_games_base_query M s))
      = find (\<lambda>gp. fst (fst gp) = i) ?inner"
    unfolding get_games_base_query_def
    by (rule find_outer_join [where P = "\<lambda>gp. fst (fst gp) = i"])
  have inner: "map_option fst (find (\<lambda>gp. fst (fst gp) = i) ?inner)
      = find (\<lambda>r. fst r = i) (games (pending s))"
    by (rule find_outer_join [where P = "\<lambda>r. fst r = i"])
  have "map_option (\<lambda>gpc. fst (fst gpc)) (find (\<lambda>gpc. fst (fst (fst gpc)) = i) (get_games_base_query M s))
      = map_option fst (map_option fst (find (\<lambda>gpc. fst (fst (fst gpc)) = i) (get_games_base_query M s)))"
    by (simp add: option.map_comp comp_def)
  also have "\<dots> = map_option fst (find (\<lambda>gp. fst (fst gp) = i) ?inner)"
    by (simp only: outer)
  also have "\<dots> = find (\<lambda>r. fst r = i) (games (pending s))"
    by (rule inner)
  finally show ?thesis .
qed

lemma get_game_eq:
  "get_game M i s =
     (case bind_error M (JInt i) of
        Some e \<Rightarrow> (Unhandled e, s)
      | None \<Rightarrow>
          (case find (\<lambda>r. fst r = i) (games (pending s)) of
             None \<Rightarrow> (Returned (error_body ''Game not found'') 404, s)
           | Some r \<Rightarrow> (Returned (to_dict (fst r) (snd r)) 200, s)))"
proof (cases "find (\<lambda>gpc. fst (fst (fst gpc)) = i) (get_games_base_query M s)")
  case None
  with find_base_query [of i M s] have "find (\<lambda>r. fst r = i) (games (pending s)) = None"
    by simp
  with None show ?thesis by (simp add: get_game_def split: option.splits)
next
  case (Some gpc)
  with find_base_query [of i M s]
  have "find (\<lambda>r. fst r = i) (games (pending s)) = Some (fst (fst gpc))"
    by simp
  with Some show ?thesis by (simp add: get_game_def split: option.splits)
qed

lemma find_fst_map_of: "find (\<lambda>r. fst r = i) xs = map_option (Pair i) (map_of xs i)"
  by (induction xs) auto

lemma find_game_eq:
  "find_game M i s =
     (case bind_error M (JInt i) of
        Some e \<Rightarrow> Inl e
      | None \<Rightarrow> Inr (map_of (games (pending s)) i))"
  by (simp add: find_game_def find_fst_map_of option.map_comp comp_def option.map_ident
      split: option.splits)

lemma find_game_SomeD:
  "find_game M i s = Inr (Some g) \<Longrightarrow>
     bind_error M (JInt i) = None \<and> map_of (games (pending s)) i = Some g"
  by (simp add: find_game_eq split: option.splits)

text \<open>
  C5, as the claim states it, at an id that no game has and that the driver cannot bind:
  the query raises, no clause catches the exception, and the answer is not 404.
\<close>

theorem get_game_unbound_counterexample:
  "map_of (games (pending (begin_session sample_tables))) 9223372036854775808 = None \<and>
   get_game sample_models 9223372036854775808 (begin_session sample_tables) =
     (Unhandled OverflowError, begin_session sample_tables)"
  by (simp add: get_game_def sample_models_def sample_tables_def begin_session_def)

text \<open>
  C5, amended. \<^verbatim>\<open>GET /api/games/{id}\<close> with an id that the driver can bind: when the game
  table has no row with the id, the handler returns 404 with the body
  \<^verbatim>\<open>{"error": "Game not found"}\<close>; when it has one, the handler returns 200 with that game
  serialized. The session is left as it was.
\<close>

theorem get_game_found_or_404:
  assumes "bind_error M (JInt i) = None"
  shows "(map_of (games (pending s)) i = None \<longrightarrow>
            get_game M i s = (Returned (JObj [(''error'', JStr ''Game not found'')]) 404, s)) \<and>
         (\<forall>g. map_of (games (pending s)) i = Some g \<longrightarrow>
            get_game M i s = (Returned (to_dict i g) 200, s))"
  using assms by (simp add: get_game_eq find_fst_map_of error_body_def)

theorem get_game_found_or_404_witness:
  "bind_error sample_models (JInt 2) = None \<and> bind_error sample_models (JInt 1) = None \<and>
   map_of (games (pending (begin_session sample_tables))) 2 = None \<and>
   get_game sample_models 2 (begin_session sample_tables) =
     (Returned (JObj [(''error'', JStr ''Game not found'')]) 404, begin_session sample_tables) \<and>
   get_game sample_models 1 (begin_session sample_tables) =
     (Returned (JObj [(''id'', JInt 1), (''title'', JStr ''Chess''),
        (''description'', JStr ''A board game for two''), (''star_rating'', JNull),
        (''category_id'', JInt 1), (''publisher_id'', JInt 1)]) 200, begin_session sample_tables)"
  using get_game_found_or_404 [of sample_models 2 "begin_session sample_tables"]
    get_game_found_or_404 [of sample_models 1 "begin_session sample_tables"]
  by (simp add: sample_models_def sample_tables_def begin_session_def to_dict_def)

subsection \<open>Rejected bodies\<close>

text \<open>
  C10. A body that Python takes for false (the empty object, \<^verbatim>\<open>null\<close>, and every other
  such value) is answered with 400 and \<^verbatim>\<open>{"error": "Request body must be JSON"}\<close>, by
  \<^verbatim>\<open>POST /api/games\<close> and by \<^verbatim>\<open>PUT /api/games/{id}\<close> on an existing game (one that the
  lookup of the handler finds); nothing is reported as missing and nothing is updated.
\<close>

theorem falsy_body_rejected:
  assumes "\<not> truthy data"
  shows "create_game M data s =
           (Returned (JObj [(''error'', JStr ''Request body must be JSON'')]) 400, s) \<and>
         (\<forall>g. find_game M i s = Inr (Some g) \<longrightarrow>
            update_game M i data s =
              (Returned (JObj [(''error'', JStr ''Request body must be JSON'')]) 400, s))"
  using assms by (simp add: create_game_def update_game_def error_body_def)

theorem falsy_body_rejected_witness:
  "\<not> truthy (JObj []) \<and> \<not> truthy JNull \<and>
   find_game sample_models 1 (begin_session sample_tables) =
     Inr (Some \<lparr>title = JStr ''Chess'', description = JStr ''A board game for two'',
                star_rating = JNull, category_id = JInt 1, publisher_id = JInt 1\<rparr>) \<and>
   create_game sample_models (JObj []) (begin_session sample_tables) =
     (Returned (JObj [(''error'', JStr ''Request body must be JSON'')]) 400,
      begin_session sample_tables) \<and>
   update_game sample_models 1 (JObj []) (begin_session sample_tables) =
     (Returned (JObj [(''error'', JStr ''Request body must be JSON'')]) 400,
      begin_session sample_tables) \<and>
   create_game sample_models JNull (begin_session sample_tables) =
     (Returned (JObj [(''error'', JStr ''Request body must be JSON'')]) 400,
      begin_session sample_tables) \<and>
   update_game sample_models 1 JNull (begin_session sample_tables) =
     (Returned (JObj [(''error'', JStr ''Request body must be JSON'')]) 400,
      begin_session sample_tables)"
  using falsy_body_rejected [of "JObj []" sample_models "begin_session sample_tables" 1]
    falsy_body_rejected [of JNull sample_models "begin_session sample_tables" 1]
  by (simp add: find_game_eq sample_models_def sample_tables_def begin_session_def)

text \<open>
  C3, as the claim states it, at the body \<^verbatim>\<open>5\<close>, which is not empty and has none of the
  required fields: a number is not a container, the membership test of the first
  required field raises a \<^verbatim>\<open>TypeError\<close>, and the answer is not 400.
\<close>

theorem missing_fields_counterexample:
  "truthy (JInt 5) \<and>
   create_game sample_models (JInt 5) (begin_session sample_tables) =
     (Unhandled TypeError, begin_session sample_tables)"
  by (simp add: create_game_def required_fields_def)

text \<open>
  C3, amended. \<^verbatim>\<open>POST /api/games\<close> with a body that is a non-empty container (an object,
  an array or a string, on which \<^verbatim>\<open>in\<close> tests a key, an element or a substring) and
  that lacks some of the required fields is answered with 400 and the message that
  lists, after \<^verbatim>\<open>Missing required fields:\<close>, exactly the required fields it lacks, in
  the order title, description, category_id, publisher_id: each of the fifteen ways of
  lacking fields has its message; a body that lacks just title and publisher_id gets
  \<^verbatim>\<open>Missing required fields: title, publisher_id\<close>.
\<close>

theorem missing_fields_listed:
  assumes "truthy data"
    and "contains data ''title'' = Inr t" and "contains data ''description'' = Inr d"
    and "contains data ''category_id'' = Inr c" and "contains data ''publisher_id'' = Inr p"
  shows
  "(t \<and> d \<and> c \<and> \<not> p \<longrightarrow>
      create_game M data s =
        (Returned (JObj [(''error'', JStr ''Missing required fields: publisher_id'')]) 400, s)) \<and>
   (t \<and> d \<and> \<not> c \<and> p \<longrightarrow>
      create_game M data s =
        (Returned (JObj [(''error'', JStr ''Missing required fields: category_id'')]) 400, s)) \<and>
   (t \<and> d \<and> \<not> c \<and> \<not> p \<longrightarrow>
      create_game M data s =
        (Returned (JObj [(''error'', JStr ''Missing required fields: category_id, publisher_id'')]) 400, s)) \<and>
   (t \<and> \<not> d \<and> c \<and> p \<longrightarrow>
      create_game M data s =
        (Returned (JObj [(''error'', JStr ''Missing required fields: description'')]) 400, s)) \<and>
   (t \<and> \<not> d \<and> c \<and> \<not> p \<longrightarrow>
      create_game M data s =
        (Returned (JObj [(''error'', JStr ''Missing required fields: description, publisher_id'')]) 400, s)) \<and>
   (t \<and> \<not> d \<and> \<not> c \<and> p \<longrightarrow>
      create_game M data s =
        (Returned (JObj [(''error'', JStr ''Missing required fields: description, category_id'')]) 400, s)) \<and>
   (t \<and> \<not> d \<and> \<not> c \<and> \<not> p \<longrightarrow>
      create_game M data s =
        (Returned (JObj [(''error'', JStr ''Missing required fields: description, category_id, publisher_id'')]) 400, s)) \<and>
   (\<not> t \<and> d \<and> c \<and> p \<longrightarrow>
      create_game M data s =
        (Returned (JObj [(''error'', JStr ''Missing required fields: title'')]) 400, s)) \<and>
   (\<not> t \<and> d \<and> c \<and> \<not> p \<longrightarrow>
      create_game M data s =
        (Returned (JObj [(''error'', JStr ''Missing required fields: title, publisher_id'')]) 400, s)) \<and>
   (\<not> t \<and> d \<and> \<not> c \<and> p \<longrightarrow>
      create_game M data s =
        (Returned (JObj [(''error'', JStr ''Missing required fields: title, category_id'')]) 400, s)) \<and>
   (\<not> t \<and> d \<and> \<not> c \<and> \<not> p \<longrightarrow>
      create_game M data s =
        (Returned (JObj [(''error'', JStr ''Missing required fields: title, category_id, publisher_id'')]) 400, s)) \<and>
   (\<not> t \<and> \<not> d \<and> c \<and> p \<longrightarrow>
      create_game M data s =
        (Returned (JObj [(''error'', JStr ''Missing required fields: title, description'')]) 400, s)) \<and>
   (\<not> t \<and> \<not> d \<and> c \<and> \<not> p \<longrightarrow>
      create_game M data s =
        (Returned (JObj [(''error'', JStr ''Missing required fields: title, description, publisher_id'')]) 400, s)) \<and>
   (\<not> t \<and> \<not> d \<and> \<not> c \<and> p \<longrightarrow>
      create_game M data s =
        (Returned (JObj [(''error'', JStr ''Missing required fields: title, description, category_id'')]) 400, s)) \<and>
   (\<not> t \<and> \<not> d \<and> \<not> c \<and> \<not> p \<longrightarrow>
      create_game M data s =
        (Returned (JObj [(''error'', JStr ''Missing required fields: title, description, category_id, publisher_id'')]) 400, s))"
  using assms by (simp add: create_game_def required_fields_def error_body_def)

theorem missing_fields_listed_witness:
  "truthy (JObj [(''description'', JStr ''A card game for four''), (''category_id'', JInt 1)]) \<and>
   create_game sample_models
     (JObj [(''description'', JStr ''A card game for four''), (''category_id'', JInt 1)])
     (begin_session sample_tables) =
     (Returned (JObj [(''error'', JStr ''Missing required fields: title, publisher_id'')]) 400,
      begin_session sample_tables) \<and>
   truthy (JList [JStr ''title'']) \<and>
   create_game sample_models (JList [JStr ''title'']) (begin_session sample_tables) =
     (Returned (JObj [(''error'',
        JStr ''Missing required fields: description, category_id, publisher_id'')]) 400,
      begin_session sample_tables)"
  using missing_fields_listed [where M = sample_models and s = "begin_session sample_tables"
      and data = "JObj [(''description'', JStr ''A card game for four''), (''category_id'', JInt 1)]"
      and t = False and d = True and c = True and p = False]
    missing_fields_listed [where M = sample_models and s = "begin_session sample_tables"
      and data = "JList [JStr ''title'']"
      and t = True and d = False and c = False and p = False]
  by simp

text \<open>
  A body that is a number or \<^verbatim>\<open>true\<close> is not a container: the membership test of the
  first required field raises a \<^verbatim>\<open>TypeError\<close>, which no clause of the handler catches.
\<close>

lemma create_game_not_a_container:
  "n \<noteq> 0 \<Longrightarrow> create_game M (JInt n) s = (Unhandled TypeError, s)"
  "x \<noteq> 0 \<Longrightarrow> create_game M (JFloat x) s = (Unhandled TypeError, s)"
  "create_game M (JBool True) s = (Unhandled TypeError, s)"
  by (simp_all add: create_game_def required_fields_def)

subsection \<open>Running statements\<close>

lemma and_then_apply:
  "and_then m f s = (case m s of (Inl e, s') \<Rightarrow> (Inl e, s') | (Inr x, s') \<Rightarrow> f x s')"
  by (simp add: and_then_def)

lemma ret_apply: "ret x s = (Inr x, s)"
  by (simp add: ret_def)

lemma pure_step_apply: "pure_step r s = (r, s)"
  by (simp add: pure_step_def)

lemma commit_cases:
  "commit M s = (Inr (), s\<lparr>stored := pending s\<rparr>) \<or> (\<exists>e. commit M s = (Inl e, s))"
  by (simp add: commit_def split: list.splits)

lemma commit_integrity_error:
  "\<not> integrity M (pending s) \<Longrightarrow> commit M s = (Inl IntegrityError, s)"
  by (simp add: commit_def)

lemma commit_nothing_new:
  assumes "integrity M (pending s)" and "set (games (pending s)) \<subseteq> set (games (stored s))"
  shows "commit M s = (Inr (), s\<lparr>stored := pending s\<rparr>)"
proof -
  have "[r \<leftarrow> games (pending s). r \<notin> set (games (stored s))] = []"
    using assms(2) by (auto simp: filter_empty_conv)
  then show ?thesis
    using assms(1) by (simp add: commit_def write_errors_def)
qed

subsection \<open>Deleting\<close>

lemma map_of_filter_key: "map_of (filter (\<lambda>r. fst r \<noteq> i) xs) i = None"
  by (induction xs) auto

lemma delete_try_eq:
  "delete_try M i s =
     (case commit M (s\<lparr>pending := (pending s)
             \<lparr>games := filter (\<lambda>r. fst r \<noteq> i) (games (pending s))\<rparr>\<rparr>) of
        (Inl e, s') \<Rightarrow> (Inl e, s')
      | (Inr u, s') \<Rightarrow> (Inr (JObj [], 204), s'))"
  by (simp add: delete_try_def and_then_apply ret_apply delete_def split: prod.splits sum.splits)

lemma except_integrity_204:
  assumes "except_integrity (r, s1) = (Returned body 204, s')"
  shows "r = Inr (body, 204) \<and> s' = s1"
proof (cases r)
  case (Inl e)
  with assms show ?thesis by (cases e) (simp_all add: error_body_def)
next
  case (Inr b)
  with assms show ?thesis by (cases b) simp
qed

text \<open>
  C8, as the claim states it, at an id that no game has and that the driver cannot bind:
  the lookup raises, which the handler's \<^verbatim>\<open>try\<close> does not cover, and the answer is not
  404.
\<close>

theorem delete_game_unbound_counterexample:
  "map_of (games (pending (begin_session sample_tables))) 9223372036854775808 = None \<and>
   delete_game sample_models 9223372036854775808 (begin_session sample_tables) =
     (Unhandled OverflowError, begin_session sample_tables)"
  by (simp add: delete_game_def find_game_eq sample_models_def sample_tables_def
      begin_session_def)

text \<open>
  C8, amended. \<^verbatim>\<open>DELETE /api/games/{id}\<close> with an id that the driver can bind: on an
  existing game, when the commit raises no \<^verbatim>\<open>IntegrityError\<close>, the handler returns 204
  with the empty mapping as body (\<^verbatim>\<open>jsonify({})\<close>; a 204 response carries no content)
  and commits the tables without the game, so that no row with the id is left; when no
  game has the id the handler returns 404 and changes nothing.
\<close>

theorem delete_game_removes:
  assumes "bind_error M (JInt i) = None"
  shows "(\<forall>g. map_of (games t) i = Some g \<and>
               integrity M (t\<lparr>games := filter (\<lambda>r. fst r \<noteq> i) (games t)\<rparr>) \<longrightarrow>
            delete_game M i (begin_session t) =
              (Returned (JObj []) 204,
               begin_session (t\<lparr>games := filter (\<lambda>r. fst r \<noteq> i) (games t)\<rparr>)) \<and>
            map_of (games (stored (snd (delete_game M i (begin_session t))))) i = None) \<and>
         (map_of (games (pending s)) i = None \<longrightarrow>
            delete_game M i s = (Returned (JObj [(''error'', JStr ''Game not found'')]) 404, s))"
proof -
  have removed: "delete_game M i (begin_session t) =
      (Returned (JObj []) 204,
       begin_session (t\<lparr>games := filter (\<lambda>r. fst r \<noteq> i) (games t)\<rparr>))"
    if g: "map_of (games t) i = Some g"
      and ok: "integrity M (t\<lparr>games := filter (\<lambda>r. fst r \<noteq> i) (games t)\<rparr>)" for g
  proof -
    let ?s = "(begin_session t)\<lparr>pending := (pending (begin_session t))
        \<lparr>games := filter (\<lambda>r. fst r \<noteq> i) (games (pending (begin_session t)))\<rparr>\<rparr>"
    have "commit M ?s = (Inr (), ?s\<lparr>stored := pending ?s\<rparr>)"
      using ok by (intro commit_nothing_new) (auto simp: begin_session_def)
    then show ?thesis
      using g assms
      by (simp add: delete_game_def find_game_eq delete_try_eq begin_session_def)
  qed
  have missing: "delete_game M i s = (Returned (JObj [(''error'', JStr ''Game not found'')]) 404, s)"
    if "map_of (games (pending s)) i = None"
    using that assms by (simp add: delete_game_def find_game_eq error_body_def)
  show ?thesis
    using removed missing by (auto simp: begin_session_def map_of_filter_key)
qed

theorem delete_game_removes_witness:
  "bind_error sample_models (JInt 1) = None \<and> bind_error sample_models (JInt 2) = None \<and>
   map_of (games sample_tables) 1 \<noteq> None \<and>
   delete_game sample_models 1 (begin_session sample_tables) =
     (Returned (JObj []) 204,
      begin_session \<lparr>games = [], categories = [(1, ''Strategy'')], publishers = [(1, ''Acme'')]\<rparr>) \<and>
   map_of (games (pending (begin_session sample_tables))) 2 = None \<and>
   delete_game sample_models 2 (begin_session sample_tables) =
     (Returned (JObj [(''error'', JStr ''Game not found'')]) 404, begin_session sample_tables)"
  using delete_game_removes [of sample_models 1 sample_tables "begin_session sample_tables"]
    delete_game_removes [of sample_models 2 sample_tables "begin_session sample_tables"]
  by (simp add: sample_tables_def sample_models_def begin_session_def)

text \<open>
  C9. After a \<^verbatim>\<open>DELETE /api/games/{id}\<close> that returned 204, a \<^verbatim>\<open>GET /api/games/{id}\<close> for
  the same id returns 404 with \<^verbatim>\<open>{"error": "Game not found"}\<close>, in the session the
  delete left and in the session of a later request on what the database holds.
\<close>

theorem get_after_delete_404:
  assumes "delete_game M i s = (Returned body 204, s')"
  shows "get_game M i s' = (Returned (JObj [(''error'', JStr ''Game not found'')]) 404, s') \<and>
         get_game M i (begin_session (stored s')) =
           (Returned (JObj [(''error'', JStr ''Game not found'')]) 404, begin_session (stored s'))"
proof -
  let ?d = "s\<lparr>pending := (pending s)\<lparr>games := filter (\<lambda>r. fst r \<noteq> i) (games (pending s))\<rparr>\<rparr>"
  obtain g where found: "find_game M i s = Inr (Some g)"
    and run: "except_integrity (delete_try M i s) = (Returned body 204, s')"
    using assms
    by (auto simp: delete_game_def error_body_def split: sum.splits option.splits)
  have bound: "bind_error M (JInt i) = None"
    using find_game_SomeD [OF found] by simp
  obtain r s1 where tried: "delete_try M i s = (r, s1)"
    by (cases "delete_try M i s")
  have r: "r = Inr (body, 204)" and s1: "s' = s1"
    using except_integrity_204 [of r s1 body s'] run tried by simp_all
  have "commit M ?d = (Inr (), ?d\<lparr>stored := pending ?d\<rparr>)"
    using commit_cases [of M ?d] tried r by (auto simp: delete_try_eq)
  then have "s' = ?d\<lparr>stored := pending ?d\<rparr>"
    using tried s1 by (simp add: delete_try_eq)
  then have "map_of (games (pending s')) i = None \<and> map_of (games (stored s')) i = None"
    by (simp add: map_of_filter_key)
  then show ?thesis
    using bound by (simp add: get_game_eq find_fst_map_of error_body_def begin_session_def)
qed

theorem get_after_delete_404_witness:
  "delete_game sample_models 1 (begin_session sample_tables) =
     (Returned (JObj []) 204,
      begin_session \<lparr>games = [], categories = [(1, ''Strategy'')], publishers = [(1, ''Acme'')]\<rparr>) \<and>
   get_game sample_models 1
      (begin_session \<lparr>games = [], categories = [(1, ''Strategy'')], publishers = [(1, ''Acme'')]\<rparr>) =
     (Returned (JObj [(''error'', JStr ''Game not found'')]) 404,
      begin_session \<lparr>games = [], categories = [(1, ''Strategy'')], publishers = [(1, ''Acme'')]\<rparr>)"
proof -
  have d: "delete_game sample_models 1 (begin_session sample_tables) =
     (Returned (JObj []) 204,
      begin_session \<lparr>games = [], categories = [(1, ''Strategy'')], publishers = [(1, ''Acme'')]\<rparr>)"
    by (simp add: delete_game_def find_game_eq delete_try_eq commit_def write_errors_def
        sample_tables_def sample_models_def begin_session_def)
  show ?thesis
    using d get_after_delete_404 [OF d] by simp
qed

subsection \<open>Creating\<close>


lemma Game_raises: "Game M t d c p r = Inl e \<Longrightarrow> \<exists>m. e = ValueError m"
  by (auto simp: Game_def validate_def split: option.splits sum.splits)

lemma Game_fields:
  "Game M t d c p r = Inr g \<Longrightarrow>
     g = \<lparr>title = t, description = d, star_rating = r, category_id = c, publisher_id = p\<rparr>"
  by (auto simp: Game_def validate_def split: option.splits sum.splits)

lemma get_or_none_obj:
  "get_or_none (JObj kvs) k = Inr (case map_of kvs k of None \<Rightarrow> JNull | Some v \<Rightarrow> v)"
  by (simp split: option.splits)

lemma create_try_obj:
  assumes "map_of kvs ''title'' = Some t" and "map_of kvs ''description'' = Some d"
    and "map_of kvs ''category_id'' = Some c" and "map_of kvs ''publisher_id'' = Some p"
  shows "create_try M (JObj kvs) s =
     (case Game M t d c p (case map_of kvs ''star_rating'' of None \<Rightarrow> JNull | Some v \<Rightarrow> v) of
        Inl e \<Rightarrow> (Inl e, s)
      | Inr g \<Rightarrow>
          (case commit M (s\<lparr>pending := (pending s)
                  \<lparr>games := games (pending s) @ [(new_id M (pending s), stored_row M g)]\<rparr>\<rparr>) of
             (Inl e, s') \<Rightarrow> (Inl e, s')
           | (Inr u, s') \<Rightarrow> (Inr (to_dict (new_id M (pending s)) (stored_row M g), 201), s')))"
proof (cases "Game M t d c p (case map_of kvs ''star_rating'' of None \<Rightarrow> JNull | Some v \<Rightarrow> v)")
  case (Inl e)
  with assms show ?thesis
    by (simp add: create_try_def and_then_apply pure_step_apply get_or_none_obj
        del: get_or_none.simps)
next
  case (Inr g)
  with assms show ?thesis
    by (simp add: create_try_def and_then_apply ret_apply pure_step_apply get_or_none_obj
          add_def Let_def del: get_or_none.simps split: prod.splits sum.splits)
qed

lemma find_None_resolves: "(find P xs = None) = (\<forall>x \<in> set xs. \<not> P x)"
  by (auto simp: find_None_iff)

lemma find_category_eq:
  "find_category M v s =
     (case bind_error M v of
        Some e \<Rightarrow> Inl e
      | None \<Rightarrow>
          if resolves M (categories (pending s)) v
          then Inr (find (\<lambda>r. id_eq M (fst r) v) (categories (pending s)))
          else Inr None)"
  by (auto simp: find_category_def find_None_resolves resolves_def split: option.splits)

lemma find_publisher_eq:
  "find_publisher M v s =
     (case bind_error M v of
        Some e \<Rightarrow> Inl e
      | None \<Rightarrow>
          if resolves M (publishers (pending s)) v
          then Inr (find (\<lambda>r. id_eq M (fst r) v) (publishers (pending s)))
          else Inr None)"
  by (auto simp: find_publisher_def find_None_resolves resolves_def split: option.splits)

lemma find_category_SomeD:
  "find_category M v s = Inr (Some row) \<Longrightarrow>
     bind_error M v = None \<and> resolves M (categories (pending s)) v"
  using find_category_eq [of M v s] by (auto split: option.splits if_splits)

lemma find_publisher_SomeD:
  "find_publisher M v s = Inr (Some row) \<Longrightarrow>
     bind_error M v = None \<and> resolves M (publishers (pending s)) v"
  using find_publisher_eq [of M v s] by (auto split: option.splits if_splits)

lemma find_category_SomeI:
  assumes "bind_error M v = None" and "resolves M (categories (pending s)) v"
  shows "\<exists>row. find_category M v s = Inr (Some row)"
  using assms by (cases "find (\<lambda>r. id_eq M (fst r) v) (categories (pending s))")
    (auto simp: find_category_def find_None_resolves resolves_def)

lemma find_publisher_SomeI:
  assumes "bind_error M v = None" and "resolves M (publishers (pending s)) v"
  shows "\<exists>row. find_publisher M v s = Inr (Some row)"
  using assms by (cases "find (\<lambda>r. id_eq M (fst r) v) (publishers (pending s))")
    (auto simp: find_publisher_def find_None_resolves resolves_def)

lemma create_game_obj:
  assumes "map_of kvs ''title'' = Some t" and "map_of kvs ''description'' = Some d"
    and "map_of kvs ''category_id'' = Some c" and "map_of kvs ''publisher_id'' = Some p"
    and "find_category M c s = Inr (Some rc)"
    and "find_publisher M p s = Inr (Some rp)"
  shows "create_game M (JObj kvs) s = except_clauses (create_try M (JObj kvs) s)"
proof -
  have "kvs \<noteq> []" using assms(1) by auto
  moreover have "[f \<leftarrow> required_fields. f \<notin> fst ` set kvs] = []"
    using assms(1-4) by (auto simp: required_fields_def dest: map_of_SomeD intro: rev_image_eqI)
  moreover have "missing_fields (JObj kvs) fs = Inr [f \<leftarrow> fs. f \<notin> fst ` set kvs]" for fs
    by (induction fs) (simp_all add: map_of_eq_None_iff)
  ultimately show ?thesis
    using assms(3-6) by (simp add: create_game_def)
qed

lemma resolves_key:
  "resolves M rows v = (\<exists>k. as_key M v = Some k \<and> k \<in> fst ` set rows)"
  by (force simp: resolves_def id_eq_def)


lemma key_column_value:
  assumes "as_key M v = Some k" and "bind_error M v = None"
  shows "column_value M ''category_id'' v = JInt k" and "column_value M ''publisher_id'' v = JInt k"
  using assms by (simp_all add: column_value_def)


text \<open>
  C1, as the claim states it, at a body whose category_id is the string \<^verbatim>\<open>"1"\<close>, which
  the database reads as the key of an existing category: the game is created and the
  answer is 201, but the category_id of its body is the integer 1 that the column
  holds, not the string that was supplied.
\<close>

theorem create_game_coerced_counterexample:
  "resolves sample_models (categories (pending (begin_session sample_tables))) (JStr ''1'') \<and>
   resolves sample_models (publishers (pending (begin_session sample_tables))) (JInt 1) \<and>
   create_game sample_models
     (JObj [(''title'', JStr ''Go''), (''description'', JStr ''Stones on a board''),
            (''category_id'', JStr ''1''), (''publisher_id'', JInt 1)])
     (begin_session sample_tables) =
   (Returned (JObj [(''id'', JInt 2), (''title'', JStr ''Go''),
        (''description'', JStr ''Stones on a board''), (''star_rating'', JNull),
        (''category_id'', JInt 1), (''publisher_id'', JInt 1)]) 201,
    begin_session (sample_tables\<lparr>games := games sample_tables @
      [(2, \<lparr>title = JStr ''Go'', description = JStr ''Stones on a board'', star_rating = JNull,
            category_id = JInt 1, publisher_id = JInt 1\<rparr>)]\<rparr>)) \<and>
   JInt 1 \<noteq> JStr ''1''"
  by (simp add: create_game_def required_fields_def find_category_def find_publisher_def
      id_eq_def as_key_def resolves_def create_try_def and_then_apply ret_apply pure_step_apply
      Game_def validate_def add_def commit_def write_errors_def row_values_def stored_row_def
      column_value_def to_dict_def sample_models_def sample_tables_def begin_session_def)

text \<open>
  C1, amended. \<^verbatim>\<open>POST /api/games\<close> with an object that has title, description,
  category_id and publisher_id, where the database reads the category_id as the key of
  an existing category and the publisher_id as the key of an existing publisher, where
  the constructor raises nothing and the commit raises nothing: the handler commits the
  tables with the new game and returns 201 with the game serialized as the database
  holds it. The category_id and publisher_id of the row, and with the serialization of
  the data model those of the body, are these two keys; they are the values supplied
  whenever those are integers.
\<close>

theorem create_game_created:
  assumes "map_of kvs ''title'' = Some t" and "map_of kvs ''description'' = Some d"
    and "map_of kvs ''category_id'' = Some c" and "map_of kvs ''publisher_id'' = Some p"
    and "bind_error M c = None" and "as_key M c = Some kc"
    and "kc \<in> fst ` set (categories (pending s))"
    and "bind_error M p = None" and "as_key M p = Some kp"
    and "kp \<in> fst ` set (publishers (pending s))"
    and "Game M t d c p (case map_of kvs ''star_rating'' of None \<Rightarrow> JNull | Some v \<Rightarrow> v) = Inr g"
    and "commit M (s\<lparr>pending := (pending s)
            \<lparr>games := games (pending s) @ [(new_id M (pending s), stored_row M g)]\<rparr>\<rparr>)
         = (Inr (), s')"
  shows "create_game M (JObj kvs) s =
           (Returned (to_dict (new_id M (pending s)) (stored_row M g)) 201, s') \<and>
         (new_id M (pending s), stored_row M g) \<in> set (games (stored s')) \<and>
         category_id (stored_row M g) = JInt kc \<and> publisher_id (stored_row M g) = JInt kp \<and>
         getitem (to_dict (new_id M (pending s)) (stored_row M g)) ''category_id'' = Inr (JInt kc) \<and>
         getitem (to_dict (new_id M (pending s)) (stored_row M g)) ''publisher_id'' = Inr (JInt kp) \<and>
         ((\<exists>n. c = JInt n) \<longrightarrow>
            getitem (to_dict (new_id M (pending s)) (stored_row M g)) ''category_id'' = Inr c) \<and>
         ((\<exists>n. p = JInt n) \<longrightarrow>
            getitem (to_dict (new_id M (pending s)) (stored_row M g)) ''publisher_id'' = Inr p)"
proof -
  let ?a = "s\<lparr>pending := (pending s)
            \<lparr>games := games (pending s) @ [(new_id M (pending s), stored_row M g)]\<rparr>\<rparr>"
  obtain rc where rc: "find_category M c s = Inr (Some rc)"
    using find_category_SomeI [of M c s] assms(5-7) by (auto simp: resolves_key)
  obtain rp where rp: "find_publisher M p s = Inr (Some rp)"
    using find_publisher_SomeI [of M p s] assms(8-10) by (auto simp: resolves_key)
  have run: "create_game M (JObj kvs) s =
           (Returned (to_dict (new_id M (pending s)) (stored_row M g)) 201, s')"
    using assms(11,12)
    by (simp add: create_game_obj [OF assms(1-4) rc rp] create_try_obj [OF assms(1-4)])
  have "s' = ?a\<lparr>stored := pending ?a\<rparr>"
    using commit_cases [of M ?a] assms(12) by auto
  then have row: "(new_id M (pending s), stored_row M g) \<in> set (games (stored s'))"
    by simp
  have g: "category_id g = c" "publisher_id g = p"
    using Game_fields [OF assms(11)] by simp_all
  have keys: "category_id (stored_row M g) = JInt kc" "publisher_id (stored_row M g) = JInt kp"
    using g key_column_value [OF assms(6,5)] key_column_value [OF assms(9,8)]
    by (simp_all add: stored_row_def)
  have "c = JInt n \<Longrightarrow> kc = n" for n
    using assms(6) by (simp add: as_key_def)
  moreover have "p = JInt n \<Longrightarrow> kp = n" for n
    using assms(9) by (simp add: as_key_def)
  ultimately show ?thesis
    using run row keys by (auto simp: to_dict_def)
qed

theorem create_game_created_witness:
  "create_game sample_models
     (JObj [(''title'', JInt 123), (''description'', JStr ''Stones on a board''),
            (''category_id'', JStr ''1''), (''publisher_id'', JInt 1)])
     (begin_session sample_tables) =
   (Returned (JObj [(''id'', JInt 2), (''title'', JStr ''123''),
        (''description'', JStr ''Stones on a board''), (''star_rating'', JNull),
        (''category_id'', JInt 1), (''publisher_id'', JInt 1)]) 201,
    begin_session (sample_tables\<lparr>games := games sample_tables @
      [(2, \<lparr>title = JStr ''123'', description = JStr ''Stones on a board'', star_rating = JNull,
            category_id = JInt 1, publisher_id = JInt 1\<rparr>)]\<rparr>))"
  using create_game_created [where M = sample_models and s = "begin_session sample_tables"
      and kvs = "[(''title'', JInt 123), (''description'', JStr ''Stones on a board''),
            (''category_id'', JStr ''1''), (''publisher_id'', JInt 1)]"
      and t = "JInt 123" and d = "JStr ''Stones on a board''" and c = "JStr ''1''" and p = "JInt 1"
      and kc = 1 and kp = 1
      and g = "\<lparr>title = JInt 123, description = JStr ''Stones on a board'', star_rating = JNull,
            category_id = JStr ''1'', publisher_id = JInt 1\<rparr>"
      and s' = "begin_session (sample_tables\<lparr>games := games sample_tables @
      [(2, \<lparr>title = JStr ''123'', description = JStr ''Stones on a board'', star_rating = JNull,
            category_id = JInt 1, publisher_id = JInt 1\<rparr>)]\<rparr>)"]
  by (simp add: sample_models_def sample_tables_def begin_session_def Game_def validate_def
      to_dict_def as_key_def commit_def write_errors_def row_values_def stored_row_def
      column_value_def)

text \<open>
  C4, as the claim states it, at two bodies whose category_id references no category.
  The first lacks other required fields: the answer is 400, but its body reports the
  missing fields, since that test comes first. The second has all four fields and a
  category_id that the driver cannot bind: the lookup raises, which no \<^verbatim>\<open>try\<close> covers,
  and the answer is not 400.
\<close>

theorem category_not_found_counterexample:
  "\<not> resolves sample_models (categories (pending (begin_session sample_tables))) (JInt 7) \<and>
   create_game sample_models (JObj [(''category_id'', JInt 7)]) (begin_session sample_tables) =
     (Returned (JObj [(''error'',
        JStr ''Missing required fields: title, description, publisher_id'')]) 400,
      begin_session sample_tables) \<and>
   \<not> resolves sample_models (categories (pending (begin_session sample_tables)))
       (JInt 9223372036854775808) \<and>
   create_game sample_models
     (JObj [(''title'', JStr ''Go''), (''description'', JStr ''Stones on a board''),
            (''category_id'', JInt 9223372036854775808), (''publisher_id'', JInt 1)])
     (begin_session sample_tables) =
     (Unhandled OverflowError, begin_session sample_tables)"
  by (simp add: create_game_def required_fields_def error_body_def resolves_def id_eq_def
      as_key_def find_category_def sample_models_def sample_tables_def begin_session_def)

text \<open>
  C4, amended. \<^verbatim>\<open>POST /api/games\<close> with an object whose category_id references no
  category leaves the session, and so the game table, as it was. The answer is 400,
  unless all four required fields are there and the driver cannot bind the category_id;
  its body is \<^verbatim>\<open>{"error": "Category not found"}\<close> when all four required fields are
  there and the driver can bind the category_id.
\<close>

theorem category_not_found_rejected:
  assumes "map_of kvs ''category_id'' = Some c"
    and "\<not> resolves M (categories (pending s)) c"
  shows "snd (create_game M (JObj kvs) s) = s \<and>
         (\<not> set required_fields \<subseteq> fst ` set kvs \<or> bind_error M c = None \<longrightarrow>
            (\<exists>body. fst (create_game M (JObj kvs) s) = Returned body 400)) \<and>
         (set required_fields \<subseteq> fst ` set kvs \<and> bind_error M c = None \<longrightarrow>
            create_game M (JObj kvs) s =
              (Returned (JObj [(''error'', JStr ''Category not found'')]) 400, s))"
proof -
  have kvs: "kvs \<noteq> []" using assms(1) by auto
  have missing: "missing_fields (JObj kvs) fs = Inr [f \<leftarrow> fs. f \<notin> fst ` set kvs]" for fs
    by (induction fs) (simp_all add: map_of_eq_None_iff)
  show ?thesis
  proof (cases "set required_fields \<subseteq> fst ` set kvs")
    case False
    then have "[f \<leftarrow> required_fields. f \<notin> fst ` set kvs] \<noteq> []"
      by (auto simp: filter_empty_conv)
    with False kvs show ?thesis
      by (simp add: create_game_def missing)
  next
    case True
    then have none: "[f \<leftarrow> required_fields. f \<notin> fst ` set kvs] = []"
      by (auto simp: filter_empty_conv)
    show ?thesis
    proof (cases "bind_error M c")
      case None
      with assms True kvs none show ?thesis
        by (simp add: create_game_def missing find_category_eq error_body_def)
    next
      case (Some e)
      with assms True kvs none show ?thesis
        by (simp add: create_game_def missing find_category_eq)
    qed
  qed
qed

theorem category_not_found_rejected_witness:
  "\<not> resolves sample_models (categories (pending (begin_session sample_tables))) (JInt 7) \<and>
   bind_error sample_models (JInt 7) = None \<and>
   create_game sample_models
     (JObj [(''title'', JStr ''Go''), (''description'', JStr ''Stones on a board''),
            (''category_id'', JInt 7), (''publisher_id'', JInt 1)])
     (begin_session sample_tables) =
   (Returned (JObj [(''error'', JStr ''Category not found'')]) 400, begin_session sample_tables)"
  using category_not_found_rejected [where M = sample_models and s = "begin_session sample_tables"
      and c = "JInt 7"
      and kvs = "[(''title'', JStr ''Go''), (''description'', JStr ''Stones on a board''),
                (''category_id'', JInt 7), (''publisher_id'', JInt 1)]"]
  by (simp add: required_fields_def resolves_def id_eq_def as_key_def sample_models_def
      sample_tables_def begin_session_def)

subsection \<open>Updating\<close>

lemma assign_cases:
  assumes "assign M data a setter i g s = (res, s')"
  shows "(s' = s \<and> (res = Inr g \<and> contains data a = Inr False
                    \<or> (\<exists>e. res = Inl e \<and> (e = TypeError \<or> e = KeyError \<or>
                          (\<exists>v m. getitem data a = Inr v \<and> validates M a v = Some m \<and> e = ValueError m)))))
       \<or> (\<exists>v. getitem data a = Inr v \<and> validates M a v = None \<and> res = Inr (setter (column_value M a v) g) \<and>
             s' = s\<lparr>pending := (pending s)
                    \<lparr>games := map (\<lambda>r. if fst r = i then (i, setter (column_value M a v) g) else r) (games (pending s))\<rparr>\<rparr>)"
proof (cases "contains data a")
  case (Inl e)
  then have "e = TypeError" by (cases data) auto
  with Inl assms show ?thesis
    by (auto simp: assign_def and_then_apply pure_step_apply)
next
  case (Inr present)
  show ?thesis
  proof (cases present)
    case False
    with Inr assms show ?thesis
      by (auto simp: assign_def and_then_apply pure_step_apply ret_apply)
  next
    case True
    show ?thesis
    proof (cases "getitem data a")
      case (Inl e)
      then have "e = TypeError \<or> e = KeyError"
        by (cases data) (auto split: option.splits)
      with Inl Inr True assms show ?thesis
        by (auto simp: assign_def and_then_apply pure_step_apply)
    next
      case v: (Inr v)
      show ?thesis
      proof (cases "validates M a v")
        case None
        with v Inr True assms show ?thesis
          by (auto simp: assign_def and_then_apply pure_step_apply ret_apply validate_def
              write_game_def)
      next
        case (Some m)
        with v Inr True assms show ?thesis
          by (auto simp: assign_def and_then_apply pure_step_apply ret_apply validate_def)
      qed
    qed
  qed
qed

lemma assign_invariant:
  assumes run: "assign M data a setter i g s = (res, s')"
    and inv: "I g s"
    and step: "\<And>v. getitem data a = Inr v \<Longrightarrow>
      I (setter (column_value M a v) g) (s\<lparr>pending := (pending s)
           \<lparr>games := map (\<lambda>r. if fst r = i then (i, setter (column_value M a v) g) else r) (games (pending s))\<rparr>\<rparr>)"
  shows "case res of Inl e \<Rightarrow> I g s' | Inr g' \<Rightarrow> I g' s'"
  using assign_cases [OF run] inv step by auto

lemma update_fields_invariant:
  assumes run: "update_fields M data i g s = (res, s')"
    and inv: "I g s"
    and title: "\<And>v g s. I g s \<Longrightarrow> getitem data ''title'' = Inr v \<Longrightarrow>
      I (g\<lparr>title := column_value M ''title'' v\<rparr>) (s\<lparr>pending := (pending s)
           \<lparr>games := map (\<lambda>r. if fst r = i then (i, g\<lparr>title := column_value M ''title'' v\<rparr>) else r) (games (pending s))\<rparr>\<rparr>)"
    and description: "\<And>v g s. I g s \<Longrightarrow> getitem data ''description'' = Inr v \<Longrightarrow>
      I (g\<lparr>description := column_value M ''description'' v\<rparr>) (s\<lparr>pending := (pending s)
           \<lparr>games := map (\<lambda>r. if fst r = i then (i, g\<lparr>description := column_value M ''description'' v\<rparr>) else r) (games (pending s))\<rparr>\<rparr>)"
    and category_id: "\<And>v g s. I g s \<Longrightarrow> getitem data ''category_id'' = Inr v \<Longrightarrow>
      I (g\<lparr>category_id := column_value M ''category_id'' v\<rparr>) (s\<lparr>pending := (pending s)
           \<lparr>games := map (\<lambda>r. if fst r = i then (i, g\<lparr>category_id := column_value M ''category_id'' v\<rparr>) else r) (games (pending s))\<rparr>\<rparr>)"
    and publisher_id: "\<And>v g s. I g s \<Longrightarrow> getitem data ''publisher_id'' = Inr v \<Longrightarrow>
      I (g\<lparr>publisher_id := column_value M ''publisher_id'' v\<rparr>) (s\<lparr>pending := (pending s)
           \<lparr>games := map (\<lambda>r. if fst r = i then (i, g\<lparr>publisher_id := column_value M ''publisher_id'' v\<rparr>) else r) (games (pending s))\<rparr>\<rparr>)"
    and star_rating: "\<And>v g s. I g s \<Longrightarrow> getitem data ''star_rating'' = Inr v \<Longrightarrow>
      I (g\<lparr>star_rating := column_value M ''star_rating'' v\<rparr>) (s\<lparr>pending := (pending s)
           \<lparr>games := map (\<lambda>r. if fst r = i then (i, g\<lparr>star_rating := column_value M ''star_rating'' v\<rparr>) else r) (games (pending s))\<rparr>\<rparr>)"
  shows "case res of Inl e \<Rightarrow> \<exists>g'. I g' s' | Inr g' \<Rightarrow> I g' s'"
proof -
  obtain r1 s1 where a1: "assign M data ''title'' (\<lambda>v g. g\<lparr>title := v\<rparr>) i g s = (r1, s1)"
    by (cases "assign M data ''title'' (\<lambda>v g. g\<lparr>title := v\<rparr>) i g s")
  have i1: "case r1 of Inl e \<Rightarrow> I g s1 | Inr g' \<Rightarrow> I g' s1"
    using assign_invariant [where I = I, OF a1 inv] title [OF inv] by simp
  show ?thesis
  proof (cases r1)
    case (Inl e)
    with a1 run i1 show ?thesis
      by (auto simp: update_fields_def and_then_apply)
  next
    case g1: (Inr g1)
    with i1 have inv1: "I g1 s1" by simp
    obtain r2 s2 where a2: "assign M data ''description'' (\<lambda>v g. g\<lparr>description := v\<rparr>) i g1 s1 = (r2, s2)"
      by (cases "assign M data ''description'' (\<lambda>v g. g\<lparr>description := v\<rparr>) i g1 s1")
    have i2: "case r2 of Inl e \<Rightarrow> I g1 s2 | Inr g' \<Rightarrow> I g' s2"
      using assign_invariant [where I = I, OF a2 inv1] description [OF inv1] by simp
    show ?thesis
    proof (cases r2)
      case (Inl e)
      with a1 g1 a2 run i2 show ?thesis
        by (auto simp: update_fields_def and_then_apply)
    next
      case g2: (Inr g2)
      with i2 have inv2: "I g2 s2" by simp
      obtain r3 s3 where a3: "assign M data ''category_id'' (\<lambda>v g. g\<lparr>category_id := v\<rparr>) i g2 s2 = (r3, s3)"
        by (cases "assign M data ''category_id'' (\<lambda>v g. g\<lparr>category_id := v\<rparr>) i g2 s2")
      have i3: "case r3 of Inl e \<Rightarrow> I g2 s3 | Inr g' \<Rightarrow> I g' s3"
        using assign_invariant [where I = I, OF a3 inv2] category_id [OF inv2] by simp
      show ?thesis
      proof (cases r3)
        case (Inl e)
        with a1 g1 a2 g2 a3 run i3 show ?thesis
          by (auto simp: update_fields_def and_then_apply)
      next
        case g3: (Inr g3)
        with i3 have inv3: "I g3 s3" by simp
        obtain r4 s4 where a4: "assign M data ''publisher_id'' (\<lambda>v g. g\<lparr>publisher_id := v\<rparr>) i g3 s3 = (r4, s4)"
          by (cases "assign M data ''publisher_id'' (\<lambda>v g. g\<lparr>publisher_id := v\<rparr>) i g3 s3")
        have i4: "case r4 of Inl e \<Rightarrow> I g3 s4 | Inr g' \<Rightarrow> I g' s4"
          using assign_invariant [where I = I, OF a4 inv3] publisher_id [OF inv3] by simp
        show ?thesis
        proof (cases r4)
          case (Inl e)
          with a1 g1 a2 g2 a3 g3 a4 run i4 show ?thesis
            by (auto simp: update_fields_def and_then_apply)
        next
          case g4: (Inr g4)
          with i4 have inv4: "I g4 s4" by simp
          have a5: "assign M data ''star_rating'' (\<lambda>v g. g\<lparr>star_rating := v\<rparr>) i g4 s4 = (res, s')"
            using a1 g1 a2 g2 a3 g3 a4 g4 run by (simp add: update_fields_def and_then_apply)
          have "case res of Inl e \<Rightarrow> I g4 s' | Inr g' \<Rightarrow> I g' s'"
            using assign_invariant [where I = I, OF a5 inv4] star_rating [OF inv4] by simp
          then show ?thesis by (auto split: sum.splits)
        qed
      qed
    qed
  qed
qed

subsection \<open>Referential integrity is preserved\<close>



lemma except_clauses_session:
  "snd (except_clauses (r, s)) = s \<or> snd (except_clauses (r, s)) = rollback s"
proof (cases r)
  case (Inl e)
  then show ?thesis by (cases e) simp_all
next
  case (Inr b)
  then show ?thesis by (cases b) simp
qed










subsection \<open>Errors roll the transaction back\<close>

lemma rollback_eq: "rollback s = \<lparr>stored = stored s, pending = stored s\<rparr>"
  by (cases s) (simp add: rollback_def)

lemma create_game_value_error:
  assumes "map_of kvs ''title'' = Some t" and "map_of kvs ''description'' = Some d"
    and "map_of kvs ''category_id'' = Some c" and "map_of kvs ''publisher_id'' = Some p"
    and "find_category M c s = Inr (Some rc)"
    and "find_publisher M p s = Inr (Some rp)"
    and "Game M t d c p (case map_of kvs ''star_rating'' of None \<Rightarrow> JNull | Some v \<Rightarrow> v)
           = Inl (ValueError m)"
  shows "create_game M (JObj kvs) s =
           (Returned (JObj [(''error'', JStr m)]) 400, \<lparr>stored = stored s, pending = stored s\<rparr>)"
  using assms(7)
  by (simp add: create_game_obj [OF assms(1-6)] create_try_obj [OF assms(1-4)] rollback_eq
      error_body_def)

lemma create_game_integrity_error:
  assumes "map_of kvs ''title'' = Some t" and "map_of kvs ''description'' = Some d"
    and "map_of kvs ''category_id'' = Some c" and "map_of kvs ''publisher_id'' = Some p"
    and "find_category M c s = Inr (Some rc)"
    and "find_publisher M p s = Inr (Some rp)"
    and "Game M t d c p (case map_of kvs ''star_rating'' of None \<Rightarrow> JNull | Some v \<Rightarrow> v) = Inr g"
    and "\<not> integrity M ((pending s)\<lparr>games := games (pending s) @
            [(new_id M (pending s), stored_row M g)]\<rparr>)"
  shows "create_game M (JObj kvs) s =
           (Returned (JObj [(''error'', JStr ''Database integrity error'')]) 400,
            \<lparr>stored = stored s, pending = stored s\<rparr>)"
  using assms(7,8)
  by (simp add: create_game_obj [OF assms(1-6)] create_try_obj [OF assms(1-4)]
      commit_integrity_error rollback_eq error_body_def)

lemma update_game_reaches_try:
  assumes "find_game M i s = Inr (Some g)" and "truthy data"
    and "check_category M data s = None" and "check_publisher M data s = None"
  shows "update_game M i data s = except_clauses (update_try M data i g s)"
  using assms by (simp add: update_game_def)

lemma update_fields_stored:
  assumes "update_fields M data i g s = (res, s1)"
  shows "stored s1 = stored s"
proof -
  have "case res of Inl e \<Rightarrow> \<exists>g'::game. stored s1 = stored s | Inr g' \<Rightarrow> stored s1 = stored s"
    by (rule update_fields_invariant [where I = "\<lambda>g' s'. stored s' = stored s", OF assms])
       simp_all
  then show ?thesis by (cases res) simp_all
qed

lemma update_game_value_error:
  assumes "find_game M i s = Inr (Some g)" and "truthy data"
    and "check_category M data s = None" and "check_publisher M data s = None"
    and "update_fields M data i g s = (Inl (ValueError m), s1)"
  shows "update_game M i data s =
           (Returned (JObj [(''error'', JStr m)]) 400, \<lparr>stored = stored s, pending = stored s\<rparr>)"
  using assms(5) update_fields_stored [OF assms(5)]
  by (simp add: update_game_reaches_try [OF assms(1-4)] update_try_def and_then_apply rollback_eq
      error_body_def)

lemma update_game_integrity_error:
  assumes "find_game M i s = Inr (Some g)" and "truthy data"
    and "check_category M data s = None" and "check_publisher M data s = None"
    and "update_fields M data i g s = (Inr g', s1)"
    and "\<not> integrity M (pending s1)"
  shows "update_game M i data s =
           (Returned (JObj [(''error'', JStr ''Database integrity error'')]) 400,
            \<lparr>stored = stored s, pending = stored s\<rparr>)"
  using assms(5,6) update_fields_stored [OF assms(5)]
  by (simp add: update_game_reaches_try [OF assms(1-4)] update_try_def and_then_apply
      commit_integrity_error rollback_eq error_body_def)

text \<open>
  C6. In \<^verbatim>\<open>create_game\<close> and \<^verbatim>\<open>update_game\<close>, on a request that reaches the \<^verbatim>\<open>try\<close>
  (for a creation: the four fields are there and both lookups find a row; for an
  update: the lookup finds the game, the body is not taken for false and the two
  existence checks let it pass): when the constructor, or an assignment of the update,
  raises a \<^verbatim>\<open>ValueError\<close>, the handler returns 400 with that error's message; when the
  commit raises an \<^verbatim>\<open>IntegrityError\<close>, it returns 400 with
  \<^verbatim>\<open>Database integrity error\<close>. In both cases the session is rolled back: what the
  database holds is what it held before the request, and the session has no change
  left.
\<close>

theorem errors_roll_back:
  "(map_of kvs ''title'' = Some t \<and> map_of kvs ''description'' = Some d \<and>
    map_of kvs ''category_id'' = Some c \<and> map_of kvs ''publisher_id'' = Some p \<and>
    find_category M c s = Inr (Some rc) \<and> find_publisher M p s = Inr (Some rp) \<longrightarrow>
      (Game M t d c p (case map_of kvs ''star_rating'' of None \<Rightarrow> JNull | Some v \<Rightarrow> v)
         = Inl (ValueError m) \<longrightarrow>
       create_game M (JObj kvs) s =
         (Returned (JObj [(''error'', JStr m)]) 400,
          \<lparr>stored = stored s, pending = stored s\<rparr>)) \<and>
      (Game M t d c p (case map_of kvs ''star_rating'' of None \<Rightarrow> JNull | Some v \<Rightarrow> v)
         = Inr g \<and>
       \<not> integrity M ((pending s)\<lparr>games := games (pending s) @
            [(new_id M (pending s), stored_row M g)]\<rparr>) \<longrightarrow>
       create_game M (JObj kvs) s =
         (Returned (JObj [(''error'', JStr ''Database integrity error'')]) 400,
          \<lparr>stored = stored s, pending = stored s\<rparr>))) \<and>
   (find_game M i s = Inr (Some old) \<and> truthy data \<and>
    check_category M data s = None \<and> check_publisher M data s = None \<longrightarrow>
      (update_fields M data i old s = (Inl (ValueError m), s1) \<longrightarrow>
       update_game M i data s =
         (Returned (JObj [(''error'', JStr m)]) 400,
          \<lparr>stored = stored s, pending = stored s\<rparr>)) \<and>
      (update_fields M data i old s = (Inr new, s1) \<and> \<not> integrity M (pending s1) \<longrightarrow>
       update_game M i data s =
         (Returned (JObj [(''error'', JStr ''Database integrity error'')]) 400,
          \<lparr>stored = stored s, pending = stored s\<rparr>)))"
  using create_game_value_error [of kvs t d c p M s rc rp m]
    create_game_integrity_error [of kvs t d c p M s rc rp g]
    update_game_value_error [of M i s old data m s1]
    update_game_integrity_error [of M i s old data new s1]
  by blast

theorem errors_roll_back_witness:
  "create_game sample_models
     (JObj [(''title'', JStr ''Go''), (''description'', JStr ''Stones on a board''),
            (''category_id'', JInt 1), (''publisher_id'', JInt 1), (''star_rating'', JInt 9)])
     (begin_session sample_tables) =
     (Returned (JObj [(''error'', JStr ''Star rating out of range'')]) 400,
      begin_session sample_tables) \<and>
   create_game sample_models
     (JObj [(''title'', JNull), (''description'', JStr ''Stones on a board''),
            (''category_id'', JInt 1), (''publisher_id'', JInt 1)])
     (begin_session sample_tables) =
     (Returned (JObj [(''error'', JStr ''Database integrity error'')]) 400,
      begin_session sample_tables) \<and>
   update_game sample_models 1 (JObj [(''title'', JStr ''Checkers''), (''star_rating'', JInt 9)])
     (begin_session sample_tables) =
     (Returned (JObj [(''error'', JStr ''Star rating out of range'')]) 400,
      begin_session sample_tables) \<and>
   update_game sample_models 1 (JObj [(''title'', JNull)]) (begin_session sample_tables) =
     (Returned (JObj [(''error'', JStr ''Database integrity error'')]) 400,
      begin_session sample_tables)"
proof -
  let ?s = "begin_session sample_tables"
  let ?chess = "\<lparr>title = JStr ''Chess'', description = JStr ''A board game for two'',
                 star_rating = JNull, category_id = JInt 1, publisher_id = JInt 1\<rparr>"
  have "create_game sample_models
     (JObj [(''title'', JStr ''Go''), (''description'', JStr ''Stones on a board''),
            (''category_id'', JInt 1), (''publisher_id'', JInt 1), (''star_rating'', JInt 9)]) ?s =
     (Returned (JObj [(''error'', JStr ''Star rating out of range'')]) 400, ?s)"
    using errors_roll_back [where M = sample_models and s = ?s
        and kvs = "[(''title'', JStr ''Go''), (''description'', JStr ''Stones on a board''),
            (''category_id'', JInt 1), (''publisher_id'', JInt 1), (''star_rating'', JInt 9)]"
        and t = "JStr ''Go''" and d = "JStr ''Stones on a board''" and c = "JInt 1" and p = "JInt 1"
        and rc = "(1, ''Strategy'')" and rp = "(1, ''Acme'')"
        and m = "''Star rating out of range''"]
    by (simp add: sample_models_def sample_tables_def begin_session_def Game_def validate_def
        find_category_def find_publisher_def id_eq_def as_key_def)
  moreover have "create_game sample_models
     (JObj [(''title'', JNull), (''description'', JStr ''Stones on a board''),
            (''category_id'', JInt 1), (''publisher_id'', JInt 1)]) ?s =
     (Returned (JObj [(''error'', JStr ''Database integrity error'')]) 400, ?s)"
    using errors_roll_back [where M = sample_models and s = ?s
        and kvs = "[(''title'', JNull), (''description'', JStr ''Stones on a board''),
            (''category_id'', JInt 1), (''publisher_id'', JInt 1)]"
        and t = JNull and d = "JStr ''Stones on a board''" and c = "JInt 1" and p = "JInt 1"
        and rc = "(1, ''Strategy'')" and rp = "(1, ''Acme'')"
        and g = "\<lparr>title = JNull, description = JStr ''Stones on a board'', star_rating = JNull,
                  category_id = JInt 1, publisher_id = JInt 1\<rparr>"]
    by (simp add: sample_models_def sample_tables_def begin_session_def Game_def validate_def
        find_category_def find_publisher_def id_eq_def as_key_def stored_row_def column_value_def)
  moreover have "update_game sample_models 1
       (JObj [(''title'', JStr ''Checkers''), (''star_rating'', JInt 9)]) ?s =
     (Returned (JObj [(''error'', JStr ''Star rating out of range'')]) 400, ?s)"
    using errors_roll_back [where M = sample_models and s = ?s and i = 1 and old = ?chess
        and data = "JObj [(''title'', JStr ''Checkers''), (''star_rating'', JInt 9)]"
        and m = "''Star rating out of range''"
        and ?s1.0 = "\<lparr>stored = sample_tables,
             pending = sample_tables\<lparr>games := [(1, ?chess\<lparr>title := JStr ''Checkers''\<rparr>)]\<rparr>\<rparr>"]
    by (simp add: sample_models_def sample_tables_def begin_session_def update_fields_def
        assign_def and_then_apply pure_step_apply ret_apply validate_def write_game_def
        check_category_def check_publisher_def find_game_eq column_value_def)
  moreover have "update_game sample_models 1 (JObj [(''title'', JNull)]) ?s =
     (Returned (JObj [(''error'', JStr ''Database integrity error'')]) 400, ?s)"
    using errors_roll_back [where M = sample_models and s = ?s and i = 1 and old = ?chess
        and data = "JObj [(''title'', JNull)]" and new = "?chess\<lparr>title := JNull\<rparr>"
        and ?s1.0 = "\<lparr>stored = sample_tables,
             pending = sample_tables\<lparr>games := [(1, ?chess\<lparr>title := JNull\<rparr>)]\<rparr>\<rparr>"]
    by (simp add: sample_models_def sample_tables_def begin_session_def update_fields_def
        assign_def and_then_apply pure_step_apply ret_apply validate_def write_game_def
        check_category_def check_publisher_def find_game_eq column_value_def)
  ultimately show ?thesis by simp
qed

subsection \<open>Partial update\<close>

lemma assign_obj:
  "assign M (JObj kvs) a setter i g s =
     (case map_of kvs a of
        None \<Rightarrow> (Inr g, s)
      | Some v \<Rightarrow>
          (case validates M a v of
             Some m \<Rightarrow> (Inl (ValueError m), s)
           | None \<Rightarrow>
               (Inr (setter (column_value M a v) g),
                s\<lparr>pending := (pending s)\<lparr>games :=
                     map (\<lambda>r. if fst r = i then (i, setter (column_value M a v) g) else r)
                       (games (pending s))\<rparr>\<rparr>)))"
  by (simp add: assign_def and_then_apply pure_step_apply ret_apply validate_def write_game_def
      split: option.splits)

lemma map_of_replace:
  "map_of (map (\<lambda>r. if fst r = i then (i, g') else r) xs) j =
     (if j = i then map_option (\<lambda>_. g') (map_of xs i) else map_of xs j)"
  by (induction xs) auto

lemma check_category_absent:
  "map_of kvs ''category_id'' = None \<Longrightarrow> check_category M (JObj kvs) s = None"
  by (simp add: check_category_def)

lemma check_publisher_absent:
  "map_of kvs ''publisher_id'' = None \<Longrightarrow> check_publisher M (JObj kvs) s = None"
  by (simp add: check_publisher_def)

lemma update_game_star_rating_stored:
  assumes "find_game M i (begin_session t) = Inr (Some g)"
    and "map_of kvs ''title'' = None" and "map_of kvs ''description'' = None"
    and "map_of kvs ''category_id'' = None" and "map_of kvs ''publisher_id'' = None"
  shows "stored (snd (update_game M i (JObj kvs) (begin_session t))) = t \<or>
         (\<exists>v. stored (snd (update_game M i (JObj kvs) (begin_session t))) =
            t\<lparr>games := map (\<lambda>r. if fst r = i then (i, g\<lparr>star_rating := v\<rparr>) else r) (games t)\<rparr>)"
proof (cases "kvs = []")
  case True
  with assms(1) show ?thesis
    by (simp add: update_game_def begin_session_def)
next
  case False
  let ?s = "begin_session t"
  have eq: "update_game M i (JObj kvs) ?s = except_clauses (update_try M (JObj kvs) i g ?s)"
    using assms(1) False check_category_absent [OF assms(4)] check_publisher_absent [OF assms(5)]
    by (intro update_game_reaches_try) simp_all
  obtain res s1 where fields: "update_fields M (JObj kvs) i g ?s = (res, s1)"
    by (cases "update_fields M (JObj kvs) i g ?s")
  have star: "assign M (JObj kvs) ''star_rating'' (\<lambda>v g. g\<lparr>star_rating := v\<rparr>) i g ?s = (res, s1)"
    using fields assms(2-5) by (simp add: update_fields_def assign_obj and_then_apply)
  have st: "stored s1 = t"
    using update_fields_stored [OF fields] by (simp add: begin_session_def)
  have pe: "pending s1 = t \<or>
      (\<exists>v. pending s1 = t\<lparr>games := map (\<lambda>r. if fst r = i then (i, g\<lparr>star_rating := v\<rparr>) else r) (games t)\<rparr>)"
    using star by (auto simp: assign_obj begin_session_def split: option.splits)
  have "snd (update_try M (JObj kvs) i g ?s) = s1 \<or>
      snd (update_try M (JObj kvs) i g ?s) = s1\<lparr>stored := pending s1\<rparr>"
    using fields commit_cases [of M s1]
    by (cases res) (auto simp: update_try_def and_then_apply ret_apply)
  then have "stored (snd (update_try M (JObj kvs) i g ?s)) = t \<or>
      stored (snd (update_try M (JObj kvs) i g ?s)) = pending s1"
    using st by auto
  moreover have "stored (snd (except_clauses x)) = stored (snd x)" for x
    using except_clauses_session [of "fst x" "snd x"] by (auto simp: rollback_def)
  ultimately show ?thesis
    unfolding eq using pe by auto
qed

text \<open>
  C2. \<^verbatim>\<open>PUT /api/games/{id}\<close> on an existing game with an object that has none of title,
  description, category_id and publisher_id (it supplies star_rating only): whatever the
  outcome, the game with this id that the database holds afterwards has the title,
  description, category_id and publisher_id it had before, and the games with other
  ids are as they were.
\<close>

theorem update_star_rating_only:
  assumes "find_game M i (begin_session t) = Inr (Some g)"
    and "map_of kvs ''title'' = None" and "map_of kvs ''description'' = None"
    and "map_of kvs ''category_id'' = None" and "map_of kvs ''publisher_id'' = None"
  shows "(\<exists>g'. map_of (games (stored (snd (update_game M i (JObj kvs) (begin_session t))))) i
                 = Some g' \<and>
              title g' = title g \<and> description g' = description g \<and>
              category_id g' = category_id g \<and> publisher_id g' = publisher_id g) \<and>
         (\<forall>j. j \<noteq> i \<longrightarrow>
            map_of (games (stored (snd (update_game M i (JObj kvs) (begin_session t))))) j
              = map_of (games t) j)"
proof -
  have "map_of (games t) i = Some g"
    using find_game_SomeD [OF assms(1)] by (simp add: begin_session_def)
  then show ?thesis
    using update_game_star_rating_stored [OF assms]
    by (auto simp: map_of_replace)
qed

theorem update_star_rating_only_witness:
  "find_game sample_models 1 (begin_session sample_tables) =
     Inr (Some \<lparr>title = JStr ''Chess'', description = JStr ''A board game for two'',
           star_rating = JNull, category_id = JInt 1, publisher_id = JInt 1\<rparr>) \<and>
   update_game sample_models 1 (JObj [(''star_rating'', JInt 5)]) (begin_session sample_tables) =
     (Returned (JObj [(''id'', JInt 1), (''title'', JStr ''Chess''),
        (''description'', JStr ''A board game for two''), (''star_rating'', JInt 5),
        (''category_id'', JInt 1), (''publisher_id'', JInt 1)]) 200,
      begin_session (sample_tables\<lparr>games :=
        [(1, \<lparr>title = JStr ''Chess'', description = JStr ''A board game for two'',
              star_rating = JInt 5, category_id = JInt 1, publisher_id = JInt 1\<rparr>)]\<rparr>)) \<and>
   (\<exists>g'. map_of (games (stored (snd (update_game sample_models 1 (JObj [(''star_rating'', JInt 5)])
              (begin_session sample_tables))))) 1 = Some g' \<and>
      title g' = JStr ''Chess'' \<and> description g' = JStr ''A board game for two'' \<and>
      category_id g' = JInt 1 \<and> publisher_id g' = JInt 1)"
proof -
  have run: "update_game sample_models 1 (JObj [(''star_rating'', JInt 5)]) (begin_session sample_tables) =
     (Returned (JObj [(''id'', JInt 1), (''title'', JStr ''Chess''),
        (''description'', JStr ''A board game for two''), (''star_rating'', JInt 5),
        (''category_id'', JInt 1), (''publisher_id'', JInt 1)]) 200,
      begin_session (sample_tables\<lparr>games :=
        [(1, \<lparr>title = JStr ''Chess'', description = JStr ''A board game for two'',
              star_rating = JInt 5, category_id = JInt 1, publisher_id = JInt 1\<rparr>)]\<rparr>))"
    by (simp add: update_game_def find_game_eq check_category_def check_publisher_def
        update_try_def update_fields_def assign_obj and_then_apply ret_apply commit_def
        write_errors_def row_values_def column_value_def
        to_dict_def sample_models_def sample_tables_def begin_session_def)
  have g: "find_game sample_models 1 (begin_session sample_tables) =
     Inr (Some \<lparr>title = JStr ''Chess'', description = JStr ''A board game for two'',
           star_rating = JNull, category_id = JInt 1, publisher_id = JInt 1\<rparr>)"
    by (simp add: find_game_eq sample_models_def sample_tables_def begin_session_def)
  show ?thesis
    using g run update_star_rating_only [OF g, of "[(''star_rating'', JInt 5)]"]
    by simp
qed

end
